theory Spec2Isabelle
  imports Main
begin

section \<open>Data model of the VPN plugin service\<close>

text \<open>
  The development embeds \<^verbatim>\<open>src/vpn-service/nm-pulse-sso-service.py\<close>: the class
  \<^verbatim>\<open>PulseSSOPlugin\<close> becomes a record, every method a function from the old
  plugin state to the new one, and everything the methods ask of the outside world
  (GLib's table of timeout sources, the result of \<^verbatim>\<open>Popen\<close>, the outcome of the
  browser dialog, the wait status of a child) is an explicit part of the state or an
  explicit argument.
\<close>

datatype ServiceState = Unknown | Init | Shutdown | Starting | Started | Stopping | Stopped

text \<open>
  Python dictionaries are association lists. A connection is the converted D-Bus value of
  signature \<^verbatim>\<open>a{sa{sv}}\<close>: setting name, then key, then a variant, of which the
  plugin only reads dictionaries of strings (\<^verbatim>\<open>vpn.data\<close>, \<^verbatim>\<open>vpn.secrets\<close>).
\<close>

type_synonym section_dict = "(string \<times> string) list"
type_synonym setting_dict = "(string \<times> section_dict) list"
type_synonym connection = "(string \<times> setting_dict) list"

definition dget :: "(string \<times> 'v) list \<Rightarrow> string \<Rightarrow> 'v \<Rightarrow> 'v" where
  "dget d k dflt = (case map_of d k of None \<Rightarrow> dflt | Some v \<Rightarrow> v)"

fun dset :: "(string \<times> 'v) list \<Rightarrow> string \<Rightarrow> 'v \<Rightarrow> (string \<times> 'v) list" where
  "dset [] k v = [(k, v)]"
| "dset ((k', v') # d) k v = (if k' = k then (k, v) # d else (k', v') # dset d k v)"

text \<open>
  \<^verbatim>\<open>d.update(e)\<close>. A lookup reads the first pair of a key, so the pairs of \<open>e\<close> are
  stored from the last to the first: the value \<open>e\<close> gives for a key is the one \<open>d\<close> ends with.
\<close>

definition dupdate :: "(string \<times> 'v) list \<Rightarrow> (string \<times> 'v) list \<Rightarrow> (string \<times> 'v) list" where
  "dupdate d e = foldr (\<lambda>kv acc. dset acc (fst kv) (snd kv)) e d"

definition has_key :: "(string \<times> 'v) list \<Rightarrow> string \<Rightarrow> bool" where
  "has_key d k = (map_of d k \<noteq> None)"

definition vpn_data :: "connection \<Rightarrow> section_dict" where
  "vpn_data c = dget (dget c ''vpn'' []) ''data'' []"

definition vpn_secrets :: "connection \<Rightarrow> section_dict" where
  "vpn_secrets c = dget (dget c ''vpn'' []) ''secrets'' []"

text \<open>Truth value of an \<^verbatim>\<open>Optional[str]\<close>: \<^verbatim>\<open>None\<close> and the empty string are false.\<close>

definition truthy :: "string option \<Rightarrow> bool" where
  "truthy x = (case x of None \<Rightarrow> False | Some v \<Rightarrow> v \<noteq> [])"

definition startswith :: "string \<Rightarrow> string \<Rightarrow> bool" where
  "startswith s p = (take (length p) s = p)"


text \<open>The gateway normalisation that four methods repeat: add \<^verbatim>\<open>https://\<close> when no scheme is given.\<close>

definition ensure_https :: "string \<Rightarrow> string" where
  "ensure_https g =
     (if \<not> startswith g ''http://'' \<and> \<not> startswith g ''https://'' then ''https://'' @ g else g)"

datatype signal =
    StateChanged ServiceState
  | Config section_dict
  | Ip4Config section_dict
  | Ip6Config section_dict
  | Failure string
  | SecretsRequired string "string list"

datatype error = LaunchFailedError string

text \<open>
  A pending GLib timeout source: its source id, its delay in milliseconds and the bound
  method it will call. All three callbacks return \<^verbatim>\<open>False\<close>, so every source is one-shot.
\<close>

datatype callback = Do_restart | Launch_direct_auth | On_secrets_timeout

type_synonym source = "nat \<times> int \<times> callback"

definition src_cb :: "source \<Rightarrow> callback" where
  "src_cb src = snd (snd src)"

definition src_delay :: "source \<Rightarrow> int" where
  "src_delay src = fst (snd src)"

text \<open>
  The plugin object. The fields up to \<open>secrets_timeout_id\<close> are the attributes set in
  \<^verbatim>\<open>__init__\<close>; the last five are the world the object acts on: GLib's pending
  timeout sources and its source-id counter, the D-Bus signals emitted (newest first),
  the processes created by \<^verbatim>\<open>Popen\<close> (pid and command line, newest first), and
  whether \<^verbatim>\<open>loop.quit()\<close> was called.
\<close>

record plugin =
  helper_script :: string
  proc :: "nat option"
  config :: section_dict
  ip4config :: section_dict
  gateway :: "string option"
  cookie :: "string option"
  servercert :: "string option"
  pending_connection :: "connection option"
  disconnect_requested :: bool
  child_watch_id :: "nat option"
  restart_timeout_id :: "nat option"
  auth_failure_count :: int
  reconnection_pending :: bool
  reconnection_retry_count :: int
  last_failed_cookie :: "string option"
  direct_auth_timeout_id :: "nat option"
  secrets_timeout_id :: "nat option"
  sources :: "source list"
  next_source_id :: nat
  emitted :: "signal list"
  spawned :: "(nat \<times> string list) list"
  loop_quit :: bool

definition max_reconnection_retries :: int where
  "max_reconnection_retries = 10"

definition reconnection_retry_interval :: int where
  "reconnection_retry_interval = 3000"

definition secrets_timeout_ms :: int where
  "secrets_timeout_ms = 5000"

definition init_plugin :: "string \<Rightarrow> plugin" where
  "init_plugin helper =
     \<lparr> helper_script = helper, proc = None, config = [], ip4config = [],
       gateway = None, cookie = None, servercert = None, pending_connection = None,
       disconnect_requested = False, child_watch_id = None, restart_timeout_id = None,
       auth_failure_count = 0, reconnection_pending = False, reconnection_retry_count = 0,
       last_failed_cookie = None, direct_auth_timeout_id = None, secrets_timeout_id = None,
       sources = [], next_source_id = 1, emitted = [], spawned = [], loop_quit = False \<rparr>"

subsection \<open>The outside world\<close>

text \<open>\<^verbatim>\<open>GLib.timeout_add\<close> returns a fresh source id, here the value of the counter before the call.\<close>

definition timeout_add :: "int \<Rightarrow> callback \<Rightarrow> plugin \<Rightarrow> plugin" where
  "timeout_add delay cb s =
     s\<lparr>sources := sources s @ [(next_source_id s, delay, cb)],
       next_source_id := Suc (next_source_id s)\<rparr>"

definition source_remove :: "nat \<Rightarrow> plugin \<Rightarrow> plugin" where
  "source_remove i s = s\<lparr>sources := filter (\<lambda>src. fst src \<noteq> i) (sources s)\<rparr>"

definition emit :: "signal \<Rightarrow> plugin \<Rightarrow> plugin" where
  "emit sg s = s\<lparr>emitted := sg # emitted s\<rparr>"

text \<open>The state last announced to NetworkManager, if any \<^verbatim>\<open>StateChanged\<close> was emitted.\<close>

fun external_state :: "signal list \<Rightarrow> ServiceState option" where
  "external_state [] = None"
| "external_state (StateChanged st # _) = Some st"
| "external_state (_ # rest) = external_state rest"

text \<open>
  What \<^verbatim>\<open>Popen\<close> does, and what \<^verbatim>\<open>is_dtls_enabled()\<close> read from the config file
  just before.
\<close>

datatype popen_outcome = Spawned nat | SpawnError string

type_synonym launch_env = "bool \<times> popen_outcome"

text \<open>
  The wait status GLib hands to the child watch, already taken apart by
  \<^verbatim>\<open>os.WIFEXITED\<close>, \<^verbatim>\<open>os.WIFSIGNALED\<close>: a normal exit with its code, a death by
  signal, or any other raw status.
\<close>

datatype wait_status = Exited int | Signaled int | OtherStatus int

fun exit_code :: "wait_status \<Rightarrow> int" where
  "exit_code (Exited c) = c"
| "exit_code (Signaled sg) = - sg"
| "exit_code (OtherStatus st) = st"

text \<open>
  What the \<^verbatim>\<open>try\<close> block of \<^verbatim>\<open>_launch_direct_auth\<close> meets: no graphical session
  in the \<^verbatim>\<open>loginctl\<close> output, a \<^verbatim>\<open>subprocess.TimeoutExpired\<close>, any other exception
  (with its text), or a dialog that ran to its end with a return code and the lines of
  its standard output.
\<close>

datatype auth_outcome =
    NoGraphicalSession
  | TimeoutExpired
  | RaisedException string
  | DialogExited int "string list"

section \<open>The methods of the plugin\<close>

subsection \<open>Starting the tunnel and watching it exit\<close>

definition openconnect_cmd :: "bool \<Rightarrow> string \<Rightarrow> string \<Rightarrow> string \<Rightarrow> string list" where
  "openconnect_cmd dtls_enabled helper c g =
     [''openconnect''] @ (if \<not> dtls_enabled then [''--no-dtls''] else []) @
     [''-C'', c, ''--protocol=pulse'', ''--script='' @ helper, g]"

text \<open>
  \<^verbatim>\<open>_start_openconnect\<close>. A \<^verbatim>\<open>None\<close> cookie or gateway makes the command line
  ill-typed: joining it for the log, or \<^verbatim>\<open>Popen\<close> itself, raises \<^verbatim>\<open>TypeError\<close>
  before \<^verbatim>\<open>self.proc\<close> is assigned. The child watch takes a source id of its own.
\<close>

definition start_openconnect :: "launch_env \<Rightarrow> plugin \<Rightarrow> string + plugin" where
  "start_openconnect env s =
     (case (cookie s, gateway s) of
        (Some c, Some g) \<Rightarrow>
          (case snd env of
             SpawnError msg \<Rightarrow> Inl msg
           | Spawned pid \<Rightarrow>
               Inr (s\<lparr>proc := Some pid,
                       spawned := (pid, openconnect_cmd (fst env) (helper_script s) c g) # spawned s,
                       child_watch_id := Some (next_source_id s),
                       next_source_id := Suc (next_source_id s)\<rparr>))
      | _ \<Rightarrow> Inl ''TypeError'')"

text \<open>\<^verbatim>\<open>_schedule_direct_auth\<close> and \<^verbatim>\<open>_cancel_direct_auth_timer\<close>.\<close>

definition schedule_direct_auth :: "int \<Rightarrow> plugin \<Rightarrow> plugin" where
  "schedule_direct_auth delay_ms s =
     (let d = (if delay_ms < 0 then 0 else delay_ms);
          s1 = (case direct_auth_timeout_id s of Some t \<Rightarrow> source_remove t s | None \<Rightarrow> s)
      in (timeout_add d Launch_direct_auth s1)\<lparr>direct_auth_timeout_id := Some (next_source_id s1)\<rparr>)"

definition cancel_direct_auth_timer :: "plugin \<Rightarrow> plugin" where
  "cancel_direct_auth_timer s =
     (case direct_auth_timeout_id s of
        Some t \<Rightarrow> (source_remove t s)\<lparr>direct_auth_timeout_id := None\<rparr>
      | None \<Rightarrow> s)"

text \<open>\<^verbatim>\<open>_cancel_secrets_timeout\<close> and \<^verbatim>\<open>_schedule_secrets_timeout\<close>.\<close>

definition cancel_secrets_timeout :: "plugin \<Rightarrow> plugin" where
  "cancel_secrets_timeout s =
     (case secrets_timeout_id s of
        Some t \<Rightarrow> (source_remove t s)\<lparr>secrets_timeout_id := None\<rparr>
      | None \<Rightarrow> s)"

definition schedule_secrets_timeout :: "plugin \<Rightarrow> plugin" where
  "schedule_secrets_timeout s =
     (let s1 = cancel_secrets_timeout s
      in (timeout_add secrets_timeout_ms On_secrets_timeout s1)\<lparr>secrets_timeout_id := Some (next_source_id s1)\<rparr>)"

text \<open>\<^verbatim>\<open>_on_openconnect_exit\<close>, the child watch callback.\<close>

definition on_openconnect_exit :: "nat \<Rightarrow> wait_status \<Rightarrow> plugin \<Rightarrow> plugin" where
  "on_openconnect_exit pid status s =
     (if proc s \<noteq> Some pid then s
      else
        let s1 = s\<lparr>proc := None, child_watch_id := None\<rparr> in
        if disconnect_requested s1 then s1
        else if exit_code status = 2 then
          (let failed_cookie = cookie s1;
               s2 = s1\<lparr>cookie := None\<rparr>;
               s3 = (if truthy failed_cookie then s2\<lparr>last_failed_cookie := failed_cookie\<rparr> else s2);
               s4 = s3\<lparr>auth_failure_count := auth_failure_count s3 + 1\<rparr>
           in if auth_failure_count s4 > 3 then
                emit (Failure ''Authentication failed repeatedly - please reconnect manually'')
                  (emit (StateChanged Stopped) s4)
              else if truthy (gateway s4) \<and> \<not> disconnect_requested s4 then
                schedule_direct_auth 1000
                  (emit (StateChanged Starting) (s4\<lparr>reconnection_pending := True\<rparr>))
              else
                emit (Failure ''Authentication failed - cookie expired'')
                  (emit (StateChanged Stopped) s4))
        else if truthy (cookie s1) \<and> truthy (gateway s1) then
          (let s2 = emit (StateChanged Starting) s1
           in (timeout_add 2000 Do_restart s2)\<lparr>restart_timeout_id := Some (next_source_id s2)\<rparr>)
        else emit (StateChanged Stopped) s1)"

text \<open>\<^verbatim>\<open>_do_restart\<close>, the callback of the restart timeout.\<close>

definition do_restart :: "launch_env \<Rightarrow> plugin \<Rightarrow> plugin" where
  "do_restart env s =
     (let s1 = s\<lparr>restart_timeout_id := None\<rparr> in
      if disconnect_requested s1 then s1
      else if \<not> (truthy (cookie s1) \<and> truthy (gateway s1)) then emit (StateChanged Stopped) s1
      else (case start_openconnect env s1 of
              Inr s2 \<Rightarrow> s2
            | Inl e \<Rightarrow> emit (StateChanged Stopped) s1))"

subsection \<open>Browser re-authentication\<close>

text \<open>\<^verbatim>\<open>_schedule_auth_retry\<close>; the f-string prints the bound, 10.\<close>

definition schedule_auth_retry :: "string \<Rightarrow> plugin \<Rightarrow> plugin" where
  "schedule_auth_retry reason s =
     (if reconnection_retry_count s \<ge> max_reconnection_retries then
        emit (Failure (''VPN reconnection failed after 10 attempts: '' @ reason))
          (emit (StateChanged Stopped) (s\<lparr>reconnection_pending := False\<rparr>))
      else schedule_direct_auth reconnection_retry_interval s)"

text \<open>\<^verbatim>\<open>_ensure_direct_auth\<close>; the reason is only logged.\<close>

definition ensure_direct_auth :: "string \<Rightarrow> int \<Rightarrow> plugin \<Rightarrow> plugin" where
  "ensure_direct_auth reason delay_ms s =
     schedule_direct_auth delay_ms (emit (StateChanged Starting) (s\<lparr>reconnection_pending := True\<rparr>))"

text \<open>
  The loop of \<^verbatim>\<open>_launch_direct_auth\<close> over the lines of the dialog's output:
  a line \<^verbatim>\<open>cookie\<close> or \<^verbatim>\<open>gwcert\<close> that is not the last one takes the next line as
  its value and skips it.
\<close>

fun parse_auth_output :: "string list \<Rightarrow> string option \<Rightarrow> string option \<Rightarrow> string option \<times> string option" where
  "parse_auth_output (x # y # rest) ck gw =
     (if x = ''cookie'' then parse_auth_output rest (Some y) gw
      else if x = ''gwcert'' then parse_auth_output rest ck (Some y)
      else parse_auth_output (y # rest) ck gw)"
| "parse_auth_output _ ck gw = (ck, gw)"

text \<open>\<^verbatim>\<open>_launch_direct_auth\<close>, the callback of the direct-auth timeout.\<close>

definition launch_direct_auth :: "auth_outcome \<Rightarrow> launch_env \<Rightarrow> plugin \<Rightarrow> plugin" where
  "launch_direct_auth ao env s0 =
     (let s = s0\<lparr>direct_auth_timeout_id := None\<rparr> in
      if \<not> reconnection_pending s then s
      else
        let s1 = s\<lparr>reconnection_retry_count := reconnection_retry_count s + 1\<rparr> in
        if reconnection_retry_count s1 > max_reconnection_retries then
          emit (Failure ''VPN reconnection failed - please reconnect manually'')
            (emit (StateChanged Stopped) (s1\<lparr>reconnection_pending := False\<rparr>))
        else
          (case ao of
             NoGraphicalSession \<Rightarrow> schedule_direct_auth reconnection_retry_interval s1
           | TimeoutExpired \<Rightarrow> schedule_auth_retry ''Auth-dialog timed out'' s1
           | RaisedException e \<Rightarrow> schedule_auth_retry (''Direct auth failed: '' @ e) s1
           | DialogExited returncode lines \<Rightarrow>
               if returncode \<noteq> 0 then schedule_direct_auth reconnection_retry_interval s1
               else
                 (case parse_auth_output lines None None of
                    (ck, gwcert) \<Rightarrow>
                      if \<not> truthy ck then schedule_auth_retry ''No cookie in auth-dialog output'' s1
                      else
                        let s2 = emit (StateChanged Starting)
                                   (s1\<lparr>cookie := ck, servercert := gwcert, last_failed_cookie := None\<rparr>)
                        in (case start_openconnect env s2 of
                              Inr s3 \<Rightarrow>
                                cancel_direct_auth_timer
                                  (s3\<lparr>reconnection_pending := False,
                                      reconnection_retry_count := 0,
                                      auth_failure_count := 0\<rparr>)
                            | Inl e \<Rightarrow> schedule_auth_retry ''Failed to start openconnect'' s2))))"

text \<open>\<^verbatim>\<open>_on_secrets_timeout\<close>, the callback of the secrets timeout.\<close>

definition on_secrets_timeout :: "plugin \<Rightarrow> plugin" where
  "on_secrets_timeout s0 =
     (let s = s0\<lparr>secrets_timeout_id := None\<rparr> in
      case pending_connection s of
        None \<Rightarrow> s
      | Some pc \<Rightarrow>
          if proc s \<noteq> None then s
          else
            let g = dget (vpn_data pc) ''gateway'' [] in
            if g = [] then
              (emit (Failure ''No VPN gateway configured'') (emit (StateChanged Stopped) s))
                \<lparr>pending_connection := None\<rparr>
            else
              schedule_direct_auth 0
                (s\<lparr>gateway := Some (ensure_https g),
                   reconnection_pending := True,
                   reconnection_retry_count := 0\<rparr>))"

subsection \<open>The D-Bus methods\<close>

text \<open>
  A method that can raise returns the exception it raised, if any, beside the state it
  left behind: assignments made before the \<^verbatim>\<open>raise\<close> stay.
\<close>

text \<open>\<^verbatim>\<open>_do_connect\<close>.\<close>

definition do_connect :: "connection \<Rightarrow> launch_env \<Rightarrow> plugin \<Rightarrow> error option \<times> plugin" where
  "do_connect connection env s =
     (let gw = dget (vpn_data connection) ''gateway'' [];
          ck = dget (vpn_secrets connection) ''cookie'' [];
          cert = dget (vpn_secrets connection) ''gwcert'' []
      in
      if gw = [] then (Some (LaunchFailedError ''No gateway specified in VPN configuration''), s)
      else if ck = [] then
        (Some (LaunchFailedError ''No cookie provided - auth-dialog may have failed''), s)
      else
        let gw' = ensure_https gw in
        if truthy (last_failed_cookie s) \<and> Some ck = last_failed_cookie s then
          (None, ensure_direct_auth ''stale cookie from NetworkManager'' 0 s)
        else
          let s1 = (if truthy (last_failed_cookie s) \<and> Some ck \<noteq> last_failed_cookie s
                    then s\<lparr>last_failed_cookie := None\<rparr> else s);
              s2 = emit (StateChanged Starting) s1;
              s3 = s2\<lparr>gateway := Some gw', cookie := Some ck, servercert := Some cert,
                      disconnect_requested := False,
                      reconnection_pending := False, reconnection_retry_count := 0\<rparr>
          in (case start_openconnect env s3 of
                Inr s4 \<Rightarrow> (None, s4)
              | Inl e \<Rightarrow>
                  (Some (LaunchFailedError (''Connection failed: '' @ e)),
                   emit (StateChanged Stopped) s3)))"

text \<open>\<^verbatim>\<open>Connect\<close>.\<close>

definition Connect :: "connection \<Rightarrow> launch_env \<Rightarrow> plugin \<Rightarrow> error option \<times> plugin" where
  "Connect connection env s =
     (if dget (vpn_secrets connection) ''cookie'' [] = [] then
        let gw = dget (vpn_data connection) ''gateway'' [] in
        if gw = [] then (Some (LaunchFailedError ''No gateway specified in VPN configuration''), s)
        else
          (None,
           schedule_direct_auth 0
             (emit (StateChanged Starting)
                (s\<lparr>pending_connection := Some connection,
                   gateway := Some (ensure_https gw),
                   reconnection_pending := True,
                   reconnection_retry_count := 0\<rparr>)))
      else do_connect connection env s)"

text \<open>\<^verbatim>\<open>ConnectInteractive\<close>; the \<^verbatim>\<open>details\<close> argument is never read.\<close>

definition ConnectInteractive :: "connection \<Rightarrow> launch_env \<Rightarrow> plugin \<Rightarrow> error option \<times> plugin" where
  "ConnectInteractive connection env s0 =
     (let s = s0\<lparr>pending_connection := Some connection\<rparr>;
          ck0 = dget (vpn_secrets connection) ''cookie'' [];
          gw = dget (vpn_data connection) ''gateway'' [];
          ck = (if ck0 \<noteq> [] \<and> truthy (last_failed_cookie s) \<and> Some ck0 = last_failed_cookie s
                then [] else ck0)
      in
      if ck = [] then
        (if gw = [] then (Some (LaunchFailedError ''No gateway specified in VPN configuration''), s)
         else
           (None,
            schedule_direct_auth 0
              (emit (StateChanged Starting)
                 (s\<lparr>gateway := Some (ensure_https gw),
                    reconnection_pending := True,
                    reconnection_retry_count := 0\<rparr>))))
      else do_connect connection env s)"

text \<open>\<^verbatim>\<open>NeedSecrets\<close> always answers the empty string and changes nothing.\<close>

definition NeedSecrets :: "connection \<Rightarrow> plugin \<Rightarrow> string \<times> plugin" where
  "NeedSecrets settings s = ([], s)"

text \<open>
  \<^verbatim>\<open>Disconnect\<close>. Terminating the child and clearing NetworkManager's cached secrets
  change nothing in the plugin but \<^verbatim>\<open>self.proc\<close>; every exception there is caught.
\<close>

definition Disconnect :: "plugin \<Rightarrow> plugin" where
  "Disconnect s =
     (if reconnection_pending s then
        emit (StateChanged Stopped) (s\<lparr>disconnect_requested := True\<rparr>)
      else
        let s1 = s\<lparr>disconnect_requested := True, cookie := None, gateway := None,
                   last_failed_cookie := None, pending_connection := None\<rparr>;
            s2 = cancel_secrets_timeout (cancel_direct_auth_timer s1);
            s3 = (if proc s2 \<noteq> None then s2\<lparr>proc := None\<rparr> else s2)
        in (emit (StateChanged Stopped) s3)\<lparr>loop_quit := True\<rparr>)"

text \<open>\<^verbatim>\<open>SetConfig\<close>, \<^verbatim>\<open>SetIp4Config\<close>, \<^verbatim>\<open>SetIp6Config\<close>, \<^verbatim>\<open>SetFailure\<close>: the calls of the helper script.\<close>

definition SetConfig :: "section_dict \<Rightarrow> plugin \<Rightarrow> plugin" where
  "SetConfig cfg s = emit (Config cfg) (s\<lparr>config := cfg\<rparr>)"

definition SetIp4Config :: "section_dict \<Rightarrow> plugin \<Rightarrow> plugin" where
  "SetIp4Config cfg s =
     (let s1 = (case restart_timeout_id s of
                  Some t \<Rightarrow> (source_remove t s)\<lparr>restart_timeout_id := None\<rparr>
                | None \<Rightarrow> s);
          s2 = (if auth_failure_count s1 > 0 then s1\<lparr>auth_failure_count := 0\<rparr> else s1);
          s3 = (if reconnection_retry_count s2 > 0 then s2\<lparr>reconnection_retry_count := 0\<rparr> else s2);
          s4 = (if last_failed_cookie s3 \<noteq> None then s3\<lparr>last_failed_cookie := None\<rparr> else s3);
          s5 = cancel_direct_auth_timer s4;
          s6 = s5\<lparr>ip4config := cfg\<rparr>
      in emit (StateChanged Started) (emit (Ip4Config cfg) s6))"

definition SetIp6Config :: "section_dict \<Rightarrow> plugin \<Rightarrow> plugin" where
  "SetIp6Config cfg s = emit (Ip6Config cfg) s"

definition SetFailure :: "string \<Rightarrow> plugin \<Rightarrow> plugin" where
  "SetFailure reason s = emit (StateChanged Stopped) s"

text \<open>
  \<^verbatim>\<open>NewSecrets\<close>. The pending connection is updated in place, so the update stays
  when \<^verbatim>\<open>_do_connect\<close> raises; it is set to \<^verbatim>\<open>None\<close> only when the call returns.
  An empty dictionary is false.
\<close>

definition merge_secrets :: "connection \<Rightarrow> section_dict \<Rightarrow> connection" where
  "merge_secrets pc secrets =
     (let pc1 = (if \<not> has_key pc ''vpn'' then dset pc ''vpn'' [] else pc);
          vpn = dget pc1 ''vpn'' [];
          vpn1 = (if \<not> has_key vpn ''secrets'' then dset vpn ''secrets'' [] else vpn)
      in dset pc1 ''vpn'' (dset vpn1 ''secrets'' (dupdate (dget vpn1 ''secrets'' []) secrets)))"

definition NewSecrets :: "connection \<Rightarrow> launch_env \<Rightarrow> plugin \<Rightarrow> error option \<times> plugin" where
  "NewSecrets connection env s0 =
     (let s = cancel_secrets_timeout s0;
          secrets = vpn_secrets connection
      in
      if dget secrets ''cookie'' [] = [] then
        (let gw0 = dget (vpn_data connection) ''gateway'' [];
             gw = (if gw0 = [] \<and> pending_connection s \<noteq> None \<and> pending_connection s \<noteq> Some []
                   then dget (vpn_data (the (pending_connection s))) ''gateway'' [] else gw0)
         in
         if gw = [] then
           (None, emit (Failure ''No VPN gateway configured'') (emit (StateChanged Stopped) s))
         else
           (None,
            schedule_direct_auth 0
              (s\<lparr>gateway := Some (ensure_https gw),
                 reconnection_pending := True,
                 reconnection_retry_count := 0\<rparr>)))
      else
        (case pending_connection s of
           Some (kv # pc) \<Rightarrow>
             (let pc' = merge_secrets (kv # pc) secrets;
                  s1 = s\<lparr>pending_connection := Some pc'\<rparr>
              in (case do_connect pc' env s1 of
                    (None, s2) \<Rightarrow> (None, s2\<lparr>pending_connection := None\<rparr>)
                  | (Some e, s2) \<Rightarrow> (Some e, s2)))
         | _ \<Rightarrow>
             (case gateway s of
                Some (g # gs) \<Rightarrow>
                  do_connect [(''vpn'', [(''data'', [(''gateway'', g # gs)]), (''secrets'', secrets)])] env s
              | _ \<Rightarrow> (None, s))))"

section \<open>Events, runs and reachable states\<close>

text \<open>
  Everything the main loop can dispatch: a D-Bus method call, the exit of a child, or a
  timeout source that is due. Each event carries what the world answers while it is
  handled. GLib destroys a timeout source whose callback returns \<^verbatim>\<open>False\<close>; no
  callback removes its own source, so the source is taken out before the callback runs.
\<close>

datatype event =
    EvConnect connection launch_env
  | EvConnectInteractive connection launch_env
  | EvNeedSecrets connection
  | EvNewSecrets connection launch_env
  | EvDisconnect
  | EvSetConfig section_dict
  | EvSetIp4Config section_dict
  | EvSetIp6Config section_dict
  | EvSetFailure string
  | EvChildExit nat wait_status
  | EvTimeout nat auth_outcome launch_env

definition run_callback :: "callback \<Rightarrow> auth_outcome \<Rightarrow> launch_env \<Rightarrow> plugin \<Rightarrow> plugin" where
  "run_callback cb ao env s =
     (case cb of
        Do_restart \<Rightarrow> do_restart env s
      | Launch_direct_auth \<Rightarrow> launch_direct_auth ao env s
      | On_secrets_timeout \<Rightarrow> on_secrets_timeout s)"

definition fire :: "nat \<Rightarrow> auth_outcome \<Rightarrow> launch_env \<Rightarrow> plugin \<Rightarrow> plugin" where
  "fire tid ao env s =
     (case find (\<lambda>src. fst src = tid) (sources s) of
        None \<Rightarrow> s
      | Some src \<Rightarrow> run_callback (src_cb src) ao env (source_remove tid s))"

text \<open>After \<^verbatim>\<open>loop.quit()\<close> the main loop returns and the process ends: nothing is dispatched any more.\<close>

definition step :: "plugin \<Rightarrow> event \<Rightarrow> plugin" where
  "step s e =
     (if loop_quit s then s
      else
        (case e of
           EvConnect c env \<Rightarrow> snd (Connect c env s)
         | EvConnectInteractive c env \<Rightarrow> snd (ConnectInteractive c env s)
         | EvNeedSecrets c \<Rightarrow> snd (NeedSecrets c s)
         | EvNewSecrets c env \<Rightarrow> snd (NewSecrets c env s)
         | EvDisconnect \<Rightarrow> Disconnect s
         | EvSetConfig cfg \<Rightarrow> SetConfig cfg s
         | EvSetIp4Config cfg \<Rightarrow> SetIp4Config cfg s
         | EvSetIp6Config cfg \<Rightarrow> SetIp6Config cfg s
         | EvSetFailure r \<Rightarrow> SetFailure r s
         | EvChildExit pid st \<Rightarrow> on_openconnect_exit pid st s
         | EvTimeout tid ao env \<Rightarrow> fire tid ao env s))"

definition run :: "plugin \<Rightarrow> event list \<Rightarrow> plugin" where
  "run s es = foldl step s es"

inductive reachable :: "plugin \<Rightarrow> bool" where
  reachable_init: "reachable (init_plugin helper)"
| reachable_step: "reachable s \<Longrightarrow> reachable (step s e)"

section \<open>Invariants of the reachable states\<close>

text \<open>The two counters never go below zero.\<close>

definition counters_ok :: "plugin \<Rightarrow> bool" where
  "counters_ok s = (0 \<le> auth_failure_count s \<and> 0 \<le> reconnection_retry_count s)"

text \<open>No secrets timeout is tracked, and GLib holds no source that would call \<^verbatim>\<open>_on_secrets_timeout\<close>.\<close>

definition secrets_timer_idle :: "plugin \<Rightarrow> bool" where
  "secrets_timer_idle s =
     (secrets_timeout_id s = None \<and> (\<forall>src \<in> set (sources s). src_cb src \<noteq> On_secrets_timeout))"

text \<open>Every pending source has an id below the counter and no two share an id.\<close>

definition ids_fresh :: "plugin \<Rightarrow> bool" where
  "ids_fresh s =
     ((\<forall>src \<in> set (sources s). fst src < next_source_id s) \<and> distinct (map fst (sources s)))"

text \<open>Every pending direct-auth source is the one whose id the plugin tracks.\<close>

definition direct_auth_tracked :: "plugin \<Rightarrow> bool" where
  "direct_auth_tracked s =
     (\<forall>src \<in> set (sources s).
        src_cb src = Launch_direct_auth \<longrightarrow> direct_auth_timeout_id s = Some (fst src))"


text \<open>The sources of one callback, for counting the pending timers of a name.\<close>

definition pending :: "callback \<Rightarrow> plugin \<Rightarrow> source list" where
  "pending cb s = filter (\<lambda>src. src_cb src = cb) (sources s)"

section \<open>Sample requests\<close>

text \<open>A connection with a gateway and a cookie, and one with a gateway only.\<close>

definition conn_with :: "string \<Rightarrow> string \<Rightarrow> connection" where
  "conn_with g c = [(''vpn'', [(''data'', [(''gateway'', g)]), (''secrets'', [(''cookie'', c)])])]"

definition conn_gateway_only :: "string \<Rightarrow> connection" where
  "conn_gateway_only g = [(''vpn'', [(''data'', [(''gateway'', g)])])]"


text \<open>
  Sample runs: a tunnel started by one \<^verbatim>\<open>Connect\<close>; a \<^verbatim>\<open>Connect\<close> without cookie that
  waits for the browser; and three rejected cookies followed by a fourth \<^verbatim>\<open>Connect\<close>.
\<close>

definition connected_once :: plugin where
  "connected_once =
     run (init_plugin ''helper'')
       [EvConnect (conn_with ''vpn.example.com'' ''abc123'') (False, Spawned 100)]"

definition awaiting_auth :: plugin where
  "awaiting_auth =
     run (init_plugin ''helper'')
       [EvConnect (conn_gateway_only ''vpn.example.com'') (False, Spawned 100)]"

definition rejected_thrice :: plugin where
  "rejected_thrice =
     run (init_plugin ''helper'')
       [EvConnect (conn_with ''vpn.example.com'' ''abc123'') (False, Spawned 100),
        EvChildExit 100 (Exited 2),
        EvConnect (conn_with ''vpn.example.com'' ''def456'') (False, Spawned 101),
        EvChildExit 101 (Exited 2),
        EvConnect (conn_with ''vpn.example.com'' ''ghi789'') (False, Spawned 102),
        EvChildExit 102 (Exited 2),
        EvConnect (conn_with ''vpn.example.com'' ''jkl012'') (False, Spawned 103)]"


text \<open>
  The fourth rejection in a row, after which the plugin gives up, and the stale direct-auth
  timeout of the third rejection firing without effect.
\<close>

definition gave_up :: plugin where
  "gave_up =
     run rejected_thrice
       [EvChildExit 103 (Exited 2), EvTimeout 6 TimeoutExpired (False, Spawned 104)]"

text \<open>A transient exit of the first tunnel: the restart timeout is pending.\<close>

definition restart_pending :: plugin where
  "restart_pending = run connected_once [EvChildExit 100 (Exited 1)]"

text \<open>The first tunnel rejected with exit code 2: its cookie is the last failed one.\<close>

definition rejected_once :: plugin where
  "rejected_once = run connected_once [EvChildExit 100 (Exited 2)]"


text \<open>
  The reason \<^verbatim>\<open>_launch_direct_auth\<close> hands to \<^verbatim>\<open>_schedule_auth_retry\<close> when the agent
  fails: a timeout, an exception, or an output without cookie. With no graphical session
  and with a non-zero return code it calls \<^verbatim>\<open>_schedule_direct_auth\<close> itself and gives
  no reason.
\<close>

fun failure_reason :: "auth_outcome \<Rightarrow> string option" where
  "failure_reason NoGraphicalSession = None"
| "failure_reason TimeoutExpired = Some ''Auth-dialog timed out''"
| "failure_reason (RaisedException e) = Some (''Direct auth failed: '' @ e)"
| "failure_reason (DialogExited returncode lines) =
     (if returncode = 0 \<and> \<not> truthy (fst (parse_auth_output lines None None))
      then Some ''No cookie in auth-dialog output'' else None)"

text \<open>The two ways a failed attempt ends: one retry pending after 3000 ms and nothing announced, or
  \<^verbatim>\<open>Stopped\<close> and a failure announced and nothing pending.\<close>

definition retry_scheduled :: "plugin \<Rightarrow> plugin \<Rightarrow> bool" where
  "retry_scheduled s s' =
     (pending Launch_direct_auth s' = [(next_source_id s, 3000, Launch_direct_auth)] \<and>
      direct_auth_timeout_id s' = Some (next_source_id s) \<and>
      reconnection_pending s' \<and>
      emitted s' = emitted s)"

definition stopped_with :: "string \<Rightarrow> plugin \<Rightarrow> plugin \<Rightarrow> bool" where
  "stopped_with msg s s' =
     (emitted s' = Failure msg # StateChanged Stopped # emitted s \<and>
      external_state (emitted s') = Some Stopped \<and>
      reconnection_pending s' = False \<and>
      pending Launch_direct_auth s' = [] \<and>
      direct_auth_timeout_id s' = None \<and>
      spawned s' = spawned s)"

text \<open>Nine and ten attempts that found no graphical session, after a \<^verbatim>\<open>Connect\<close> without cookie.\<close>

definition nine_failures :: plugin where
  "nine_failures =
     run awaiting_auth
       [EvTimeout 1 NoGraphicalSession (False, Spawned 100),
        EvTimeout 2 NoGraphicalSession (False, Spawned 100),
        EvTimeout 3 NoGraphicalSession (False, Spawned 100),
        EvTimeout 4 NoGraphicalSession (False, Spawned 100),
        EvTimeout 5 NoGraphicalSession (False, Spawned 100),
        EvTimeout 6 NoGraphicalSession (False, Spawned 100),
        EvTimeout 7 NoGraphicalSession (False, Spawned 100),
        EvTimeout 8 NoGraphicalSession (False, Spawned 100),
        EvTimeout 9 NoGraphicalSession (False, Spawned 100)]"

definition ten_failures :: plugin where
  "ten_failures = run nine_failures [EvTimeout 10 NoGraphicalSession (False, Spawned 100)]"

text \<open>
  A transient exit, a second \<^verbatim>\<open>Connect\<close> during the backoff, and the rejection of its
  cookie: the restart timeout is still pending and the cookie is gone.
\<close>

definition credentials_lost :: plugin where
  "credentials_lost =
     run restart_pending
       [EvConnect (conn_with ''vpn.example.com'' ''abc123'') (False, Spawned 101),
        EvChildExit 101 (Exited 2)]"

section \<open>Auxiliary notions for the statements\<close>

text \<open>The callback the main loop runs when the source with a given id is due, if it is pending.\<close>

definition due_callback :: "nat \<Rightarrow> plugin \<Rightarrow> callback option" where
  "due_callback tid s = map_option src_cb (find (\<lambda>src. fst src = tid) (sources s))"

text \<open>
  The outcomes of \<^verbatim>\<open>_launch_direct_auth\<close> in which the browser agent gives no cookie:
  no session to show it in, a timeout, an exception, a non-zero return code, or an output
  without a cookie.
\<close>

fun auth_failed :: "auth_outcome \<Rightarrow> bool" where
  "auth_failed NoGraphicalSession = True"
| "auth_failed TimeoutExpired = True"
| "auth_failed (RaisedException e) = True"
| "auth_failed (DialogExited returncode lines) =
     (returncode \<noteq> 0 \<or> \<not> truthy (fst (parse_auth_output lines None None)))"

section \<open>Basic facts\<close>

lemmas prim_defs = timeout_add_def source_remove_def emit_def schedule_direct_auth_def
  cancel_direct_auth_timer_def cancel_secrets_timeout_def schedule_auth_retry_def
  ensure_direct_auth_def

lemma start_openconnect_Inr:
  "start_openconnect env s = Inr s' \<Longrightarrow>
     \<exists>pid c g. cookie s = Some c \<and> gateway s = Some g \<and> snd env = Spawned pid \<and>
       s' = s\<lparr>proc := Some pid,
              spawned := (pid, openconnect_cmd (fst env) (helper_script s) c g) # spawned s,
              child_watch_id := Some (next_source_id s),
              next_source_id := Suc (next_source_id s)\<rparr>"
  by (auto simp: start_openconnect_def split: option.splits popen_outcome.splits)


lemma run_Nil: "run s [] = s"
  by (simp add: run_def)

lemma run_Cons: "run s (e # es) = run (step s e) es"
  by (simp add: run_def)

lemma reachable_run: "reachable s \<Longrightarrow> reachable (run s es)"
  by (induction es arbitrary: s) (simp_all add: run_Nil run_Cons reachable_step)

lemma fire_due_callback:
  "fire tid ao env s =
     (case due_callback tid s of
        None \<Rightarrow> s
      | Some cb \<Rightarrow> run_callback cb ao env (source_remove tid s))"
  by (simp add: fire_def due_callback_def split: option.splits)

section \<open>The invariants hold in every reachable state\<close>

subsection \<open>The secrets timeout is never scheduled\<close>

lemma secrets_timer_idle_on_openconnect_exit: "secrets_timer_idle s \<Longrightarrow> secrets_timer_idle (on_openconnect_exit pid st s)"
  unfolding on_openconnect_exit_def
  by (auto simp: secrets_timer_idle_def prim_defs src_cb_def Let_def  split: option.splits sum.splits auth_outcome.splits prod.splits list.splits)

lemma secrets_timer_idle_do_restart: "secrets_timer_idle s \<Longrightarrow> secrets_timer_idle (do_restart env s)"
  unfolding do_restart_def
  by (auto simp: secrets_timer_idle_def prim_defs src_cb_def Let_def  dest!: start_openconnect_Inr split: option.splits sum.splits auth_outcome.splits prod.splits list.splits)

lemma secrets_timer_idle_launch_direct_auth:
  "secrets_timer_idle s \<Longrightarrow> secrets_timer_idle (launch_direct_auth ao env s)"
  unfolding launch_direct_auth_def
  by (auto simp: secrets_timer_idle_def prim_defs src_cb_def Let_def  dest!: start_openconnect_Inr split: option.splits sum.splits auth_outcome.splits prod.splits list.splits)

lemma secrets_timer_idle_on_secrets_timeout: "secrets_timer_idle s \<Longrightarrow> secrets_timer_idle (on_secrets_timeout s)"
  unfolding on_secrets_timeout_def
  by (auto simp: secrets_timer_idle_def prim_defs src_cb_def Let_def  split: option.splits sum.splits auth_outcome.splits prod.splits list.splits)

lemma secrets_timer_idle_do_connect: "secrets_timer_idle s \<Longrightarrow> secrets_timer_idle (snd (do_connect c env s))"
  unfolding do_connect_def
  by (auto simp: secrets_timer_idle_def prim_defs src_cb_def Let_def  dest!: start_openconnect_Inr split: option.splits sum.splits auth_outcome.splits prod.splits list.splits)

lemma secrets_timer_idle_Connect: "secrets_timer_idle s \<Longrightarrow> secrets_timer_idle (snd (Connect c env s))"
  using secrets_timer_idle_do_connect [of s c env] unfolding Connect_def
  by (auto simp: secrets_timer_idle_def prim_defs src_cb_def Let_def  split: option.splits sum.splits auth_outcome.splits prod.splits list.splits)

lemma secrets_timer_idle_ConnectInteractive: "secrets_timer_idle s \<Longrightarrow> secrets_timer_idle (snd (ConnectInteractive c env s))"
  using secrets_timer_idle_do_connect [of "s\<lparr>pending_connection := Some c\<rparr>" c env] unfolding ConnectInteractive_def
  by (auto simp: secrets_timer_idle_def prim_defs src_cb_def Let_def  split: option.splits sum.splits auth_outcome.splits prod.splits list.splits)

lemma secrets_timer_idle_Disconnect: "secrets_timer_idle s \<Longrightarrow> secrets_timer_idle (Disconnect s)"
  unfolding Disconnect_def
  by (auto simp: secrets_timer_idle_def prim_defs src_cb_def Let_def  split: option.splits sum.splits auth_outcome.splits prod.splits list.splits)

lemma secrets_timer_idle_SetIp4Config: "secrets_timer_idle s \<Longrightarrow> secrets_timer_idle (SetIp4Config cfg s)"
  unfolding SetIp4Config_def
  by (auto simp: secrets_timer_idle_def prim_defs src_cb_def Let_def  split: option.splits sum.splits auth_outcome.splits prod.splits list.splits)

lemma secrets_timer_idle_NewSecrets: "secrets_timer_idle s \<Longrightarrow> secrets_timer_idle (snd (NewSecrets c env s))"
proof -
  assume inv: "secrets_timer_idle s"
  define s1 where "s1 = cancel_secrets_timeout s"
  have i1: "secrets_timer_idle s1"
    using inv unfolding s1_def by (auto simp: secrets_timer_idle_def prim_defs src_cb_def Let_def  split: option.splits sum.splits auth_outcome.splits prod.splits list.splits)
  have upd: "secrets_timer_idle (x\<lparr>pending_connection := pc\<rparr>) = secrets_timer_idle x" for x pc
    by (simp add: secrets_timer_idle_def)
  have dcr: "secrets_timer_idle x'" if "do_connect c' env' x = (r, x')" "secrets_timer_idle x" for c' env' x r x'
    using secrets_timer_idle_do_connect [of x c' env'] that by simp
  have sda: "secrets_timer_idle (schedule_direct_auth 0
      (s1\<lparr>gateway := Some (ensure_https g), reconnection_pending := True,
         reconnection_retry_count := 0\<rparr>))" if "g \<noteq> []" for g
    using i1 that by (auto simp: secrets_timer_idle_def prim_defs src_cb_def Let_def  split: option.splits sum.splits auth_outcome.splits prod.splits list.splits)
  have fail: "secrets_timer_idle (emit a (emit b s1))" for a b
    using i1 by (auto simp: secrets_timer_idle_def prim_defs src_cb_def Let_def  split: option.splits sum.splits auth_outcome.splits prod.splits list.splits)
  show ?thesis
    unfolding NewSecrets_def s1_def [symmetric] Let_def
    using i1 by (auto simp: upd sda fail secrets_timer_idle_do_connect split: option.splits sum.splits auth_outcome.splits prod.splits list.splits intro: dcr)
qed

lemma secrets_timer_idle_fire: "secrets_timer_idle s \<Longrightarrow> secrets_timer_idle (fire tid ao env s)"
proof (cases "find (\<lambda>src. fst src = tid) (sources s)")
  case None
  then show "secrets_timer_idle s \<Longrightarrow> ?thesis" by (simp add: fire_def)
next
  case (Some src)
  assume inv: "secrets_timer_idle s"
  have mem: "src \<in> set (sources s)" and idt: "fst src = tid"
    using Some by (auto simp: find_Some_iff)
  have rem: "secrets_timer_idle (source_remove tid s)"
    using inv by (auto simp: secrets_timer_idle_def prim_defs src_cb_def Let_def )
  show ?thesis
    using Some rem 
    by (cases "src_cb src")
      (simp_all add: fire_def run_callback_def secrets_timer_idle_do_restart secrets_timer_idle_launch_direct_auth
        secrets_timer_idle_on_secrets_timeout)
qed

lemma secrets_timer_idle_step: "secrets_timer_idle s \<Longrightarrow> secrets_timer_idle (step s e)"
proof -
  assume inv: "secrets_timer_idle s"
  have em: "secrets_timer_idle (emit x s)" for x
    using inv by (simp add: secrets_timer_idle_def emit_def)
  have cfg: "secrets_timer_idle (emit x (s\<lparr>config := c\<rparr>))" for x c
    using inv by (simp add: secrets_timer_idle_def emit_def)
  show ?thesis
    unfolding step_def using inv em cfg
    by (cases e)
      (simp_all add: secrets_timer_idle_Connect secrets_timer_idle_ConnectInteractive secrets_timer_idle_NewSecrets secrets_timer_idle_Disconnect
        secrets_timer_idle_SetIp4Config secrets_timer_idle_on_openconnect_exit secrets_timer_idle_fire NeedSecrets_def SetConfig_def
        SetIp6Config_def SetFailure_def)
qed

lemma secrets_timer_idle_reachable: "reachable s \<Longrightarrow> secrets_timer_idle s"
proof (induction rule: reachable.induct)
  case (reachable_init helper)
  show ?case by (simp add: secrets_timer_idle_def init_plugin_def)
next
  case (reachable_step s e)
  then show ?case by (simp add: secrets_timer_idle_step)
qed


subsection \<open>The counters stay non-negative\<close>

lemma counters_ok_on_openconnect_exit: "counters_ok s \<Longrightarrow> counters_ok (on_openconnect_exit pid st s)"
  unfolding on_openconnect_exit_def
  by (auto simp: counters_ok_def prim_defs src_cb_def Let_def max_reconnection_retries_def split: option.splits sum.splits auth_outcome.splits prod.splits list.splits)

lemma counters_ok_do_restart: "counters_ok s \<Longrightarrow> counters_ok (do_restart env s)"
  unfolding do_restart_def
  by (auto simp: counters_ok_def prim_defs src_cb_def Let_def max_reconnection_retries_def dest!: start_openconnect_Inr split: option.splits sum.splits auth_outcome.splits prod.splits list.splits)

lemma counters_ok_launch_direct_auth:
  "counters_ok s \<Longrightarrow> counters_ok (launch_direct_auth ao env s)"
  unfolding launch_direct_auth_def
  by (auto simp: counters_ok_def prim_defs src_cb_def Let_def max_reconnection_retries_def dest!: start_openconnect_Inr split: option.splits sum.splits auth_outcome.splits prod.splits list.splits)

lemma counters_ok_on_secrets_timeout: "counters_ok s \<Longrightarrow> counters_ok (on_secrets_timeout s)"
  unfolding on_secrets_timeout_def
  by (auto simp: counters_ok_def prim_defs src_cb_def Let_def max_reconnection_retries_def split: option.splits sum.splits auth_outcome.splits prod.splits list.splits)

lemma counters_ok_do_connect: "counters_ok s \<Longrightarrow> counters_ok (snd (do_connect c env s))"
  unfolding do_connect_def
  by (auto simp: counters_ok_def prim_defs src_cb_def Let_def max_reconnection_retries_def dest!: start_openconnect_Inr split: option.splits sum.splits auth_outcome.splits prod.splits list.splits)

lemma counters_ok_Connect: "counters_ok s \<Longrightarrow> counters_ok (snd (Connect c env s))"
  using counters_ok_do_connect [of s c env] unfolding Connect_def
  by (auto simp: counters_ok_def prim_defs src_cb_def Let_def max_reconnection_retries_def split: option.splits sum.splits auth_outcome.splits prod.splits list.splits)

lemma counters_ok_ConnectInteractive: "counters_ok s \<Longrightarrow> counters_ok (snd (ConnectInteractive c env s))"
  using counters_ok_do_connect [of "s\<lparr>pending_connection := Some c\<rparr>" c env] unfolding ConnectInteractive_def
  by (auto simp: counters_ok_def prim_defs src_cb_def Let_def max_reconnection_retries_def split: option.splits sum.splits auth_outcome.splits prod.splits list.splits)

lemma counters_ok_Disconnect: "counters_ok s \<Longrightarrow> counters_ok (Disconnect s)"
  unfolding Disconnect_def
  by (auto simp: counters_ok_def prim_defs src_cb_def Let_def max_reconnection_retries_def split: option.splits sum.splits auth_outcome.splits prod.splits list.splits)

lemma counters_ok_SetIp4Config: "counters_ok s \<Longrightarrow> counters_ok (SetIp4Config cfg s)"
  unfolding SetIp4Config_def
  by (auto simp: counters_ok_def prim_defs src_cb_def Let_def max_reconnection_retries_def split: option.splits sum.splits auth_outcome.splits prod.splits list.splits)

lemma counters_ok_NewSecrets: "counters_ok s \<Longrightarrow> counters_ok (snd (NewSecrets c env s))"
proof -
  assume inv: "counters_ok s"
  define s1 where "s1 = cancel_secrets_timeout s"
  have i1: "counters_ok s1"
    using inv unfolding s1_def by (auto simp: counters_ok_def prim_defs src_cb_def Let_def max_reconnection_retries_def split: option.splits sum.splits auth_outcome.splits prod.splits list.splits)
  have upd: "counters_ok (x\<lparr>pending_connection := pc\<rparr>) = counters_ok x" for x pc
    by (simp add: counters_ok_def)
  have dcr: "counters_ok x'" if "do_connect c' env' x = (r, x')" "counters_ok x" for c' env' x r x'
    using counters_ok_do_connect [of x c' env'] that by simp
  have sda: "counters_ok (schedule_direct_auth 0
      (s1\<lparr>gateway := Some (ensure_https g), reconnection_pending := True,
         reconnection_retry_count := 0\<rparr>))" if "g \<noteq> []" for g
    using i1 that by (auto simp: counters_ok_def prim_defs src_cb_def Let_def max_reconnection_retries_def split: option.splits sum.splits auth_outcome.splits prod.splits list.splits)
  have fail: "counters_ok (emit a (emit b s1))" for a b
    using i1 by (auto simp: counters_ok_def prim_defs src_cb_def Let_def max_reconnection_retries_def split: option.splits sum.splits auth_outcome.splits prod.splits list.splits)
  show ?thesis
    unfolding NewSecrets_def s1_def [symmetric] Let_def
    using i1 by (auto simp: upd sda fail counters_ok_do_connect split: option.splits sum.splits auth_outcome.splits prod.splits list.splits intro: dcr)
qed

lemma counters_ok_fire: "counters_ok s \<Longrightarrow> counters_ok (fire tid ao env s)"
proof (cases "find (\<lambda>src. fst src = tid) (sources s)")
  case None
  then show "counters_ok s \<Longrightarrow> ?thesis" by (simp add: fire_def)
next
  case (Some src)
  assume inv: "counters_ok s"
  have mem: "src \<in> set (sources s)" and idt: "fst src = tid"
    using Some by (auto simp: find_Some_iff)
  have rem: "counters_ok (source_remove tid s)"
    using inv by (auto simp: counters_ok_def prim_defs src_cb_def Let_def max_reconnection_retries_def)
  show ?thesis
    using Some rem 
    by (cases "src_cb src")
      (simp_all add: fire_def run_callback_def counters_ok_do_restart counters_ok_launch_direct_auth
        counters_ok_on_secrets_timeout)
qed

lemma counters_ok_step: "counters_ok s \<Longrightarrow> counters_ok (step s e)"
proof -
  assume inv: "counters_ok s"
  have em: "counters_ok (emit x s)" for x
    using inv by (simp add: counters_ok_def emit_def)
  have cfg: "counters_ok (emit x (s\<lparr>config := c\<rparr>))" for x c
    using inv by (simp add: counters_ok_def emit_def)
  show ?thesis
    unfolding step_def using inv em cfg
    by (cases e)
      (simp_all add: counters_ok_Connect counters_ok_ConnectInteractive counters_ok_NewSecrets counters_ok_Disconnect
        counters_ok_SetIp4Config counters_ok_on_openconnect_exit counters_ok_fire NeedSecrets_def SetConfig_def
        SetIp6Config_def SetFailure_def)
qed

lemma counters_ok_reachable: "reachable s \<Longrightarrow> counters_ok s"
proof (induction rule: reachable.induct)
  case (reachable_init helper)
  show ?case by (simp add: counters_ok_def init_plugin_def)
next
  case (reachable_step s e)
  then show ?case by (simp add: counters_ok_step)
qed


subsection \<open>The pending direct-auth timeout is the tracked one\<close>

lemma direct_auth_tracked_on_openconnect_exit: "direct_auth_tracked s \<Longrightarrow> direct_auth_tracked (on_openconnect_exit pid st s)"
  unfolding on_openconnect_exit_def
  by (auto simp: direct_auth_tracked_def prim_defs src_cb_def Let_def  split: option.splits sum.splits auth_outcome.splits prod.splits list.splits)

lemma direct_auth_tracked_do_restart: "direct_auth_tracked s \<Longrightarrow> direct_auth_tracked (do_restart env s)"
  unfolding do_restart_def
  by (auto simp: direct_auth_tracked_def prim_defs src_cb_def Let_def  dest!: start_openconnect_Inr split: option.splits sum.splits auth_outcome.splits prod.splits list.splits)

lemma direct_auth_tracked_launch_direct_auth:
  "direct_auth_tracked s \<Longrightarrow> (\<forall>src \<in> set (sources s). src_cb src \<noteq> Launch_direct_auth) \<Longrightarrow> direct_auth_tracked (launch_direct_auth ao env s)"
  unfolding launch_direct_auth_def
  by (auto simp: direct_auth_tracked_def prim_defs src_cb_def Let_def  dest!: start_openconnect_Inr split: option.splits sum.splits auth_outcome.splits prod.splits list.splits)

lemma direct_auth_tracked_on_secrets_timeout: "direct_auth_tracked s \<Longrightarrow> direct_auth_tracked (on_secrets_timeout s)"
  unfolding on_secrets_timeout_def
  by (auto simp: direct_auth_tracked_def prim_defs src_cb_def Let_def  split: option.splits sum.splits auth_outcome.splits prod.splits list.splits)

lemma direct_auth_tracked_do_connect: "direct_auth_tracked s \<Longrightarrow> direct_auth_tracked (snd (do_connect c env s))"
  unfolding do_connect_def
  by (auto simp: direct_auth_tracked_def prim_defs src_cb_def Let_def  dest!: start_openconnect_Inr split: option.splits sum.splits auth_outcome.splits prod.splits list.splits)

lemma direct_auth_tracked_Connect: "direct_auth_tracked s \<Longrightarrow> direct_auth_tracked (snd (Connect c env s))"
  using direct_auth_tracked_do_connect [of s c env] unfolding Connect_def
  by (auto simp: direct_auth_tracked_def prim_defs src_cb_def Let_def  split: option.splits sum.splits auth_outcome.splits prod.splits list.splits)

lemma direct_auth_tracked_ConnectInteractive: "direct_auth_tracked s \<Longrightarrow> direct_auth_tracked (snd (ConnectInteractive c env s))"
  using direct_auth_tracked_do_connect [of "s\<lparr>pending_connection := Some c\<rparr>" c env] unfolding ConnectInteractive_def
  by (auto simp: direct_auth_tracked_def prim_defs src_cb_def Let_def  split: option.splits sum.splits auth_outcome.splits prod.splits list.splits)

lemma direct_auth_tracked_Disconnect: "direct_auth_tracked s \<Longrightarrow> direct_auth_tracked (Disconnect s)"
  unfolding Disconnect_def
  by (auto simp: direct_auth_tracked_def prim_defs src_cb_def Let_def  split: option.splits sum.splits auth_outcome.splits prod.splits list.splits)

lemma direct_auth_tracked_SetIp4Config: "direct_auth_tracked s \<Longrightarrow> direct_auth_tracked (SetIp4Config cfg s)"
  unfolding SetIp4Config_def
  by (auto simp: direct_auth_tracked_def prim_defs src_cb_def Let_def  split: option.splits sum.splits auth_outcome.splits prod.splits list.splits)

lemma direct_auth_tracked_NewSecrets: "direct_auth_tracked s \<Longrightarrow> direct_auth_tracked (snd (NewSecrets c env s))"
proof -
  assume inv: "direct_auth_tracked s"
  define s1 where "s1 = cancel_secrets_timeout s"
  have i1: "direct_auth_tracked s1"
    using inv unfolding s1_def by (auto simp: direct_auth_tracked_def prim_defs src_cb_def Let_def  split: option.splits sum.splits auth_outcome.splits prod.splits list.splits)
  have upd: "direct_auth_tracked (x\<lparr>pending_connection := pc\<rparr>) = direct_auth_tracked x" for x pc
    by (simp add: direct_auth_tracked_def)
  have dcr: "direct_auth_tracked x'" if "do_connect c' env' x = (r, x')" "direct_auth_tracked x" for c' env' x r x'
    using direct_auth_tracked_do_connect [of x c' env'] that by simp
  have sda: "direct_auth_tracked (schedule_direct_auth 0
      (s1\<lparr>gateway := Some (ensure_https g), reconnection_pending := True,
         reconnection_retry_count := 0\<rparr>))" if "g \<noteq> []" for g
    using i1 that by (auto simp: direct_auth_tracked_def prim_defs src_cb_def Let_def  split: option.splits sum.splits auth_outcome.splits prod.splits list.splits)
  have fail: "direct_auth_tracked (emit a (emit b s1))" for a b
    using i1 by (auto simp: direct_auth_tracked_def prim_defs src_cb_def Let_def  split: option.splits sum.splits auth_outcome.splits prod.splits list.splits)
  show ?thesis
    unfolding NewSecrets_def s1_def [symmetric] Let_def
    using i1 by (auto simp: upd sda fail direct_auth_tracked_do_connect split: option.splits sum.splits auth_outcome.splits prod.splits list.splits intro: dcr)
qed

lemma direct_auth_tracked_fire: "direct_auth_tracked s \<Longrightarrow> direct_auth_tracked (fire tid ao env s)"
proof (cases "find (\<lambda>src. fst src = tid) (sources s)")
  case None
  then show "direct_auth_tracked s \<Longrightarrow> ?thesis" by (simp add: fire_def)
next
  case (Some src)
  assume inv: "direct_auth_tracked s"
  have mem: "src \<in> set (sources s)" and idt: "fst src = tid"
    using Some by (auto simp: find_Some_iff)
  have rem: "direct_auth_tracked (source_remove tid s)"
    using inv by (auto simp: direct_auth_tracked_def prim_defs src_cb_def Let_def )
  have nolda: "\<forall>x \<in> set (sources (source_remove tid s)). src_cb x \<noteq> Launch_direct_auth"
    if lda: "src_cb src = Launch_direct_auth"
  proof
    fix x
    assume "x \<in> set (sources (source_remove tid s))"
    then have xm: "x \<in> set (sources s)" and xi: "fst x \<noteq> tid"
      by (auto simp: source_remove_def)
    show "src_cb x \<noteq> Launch_direct_auth"
    proof
      assume "src_cb x = Launch_direct_auth"
      with inv xm have "direct_auth_timeout_id s = Some (fst x)"
        by (simp add: direct_auth_tracked_def)
      moreover from inv mem lda have "direct_auth_timeout_id s = Some (fst src)"
        by (simp add: direct_auth_tracked_def)
      ultimately show False using xi idt by simp
    qed
  qed
  show ?thesis
    using Some rem nolda
    by (cases "src_cb src")
      (simp_all add: fire_def run_callback_def direct_auth_tracked_do_restart direct_auth_tracked_launch_direct_auth
        direct_auth_tracked_on_secrets_timeout)
qed

lemma direct_auth_tracked_step: "direct_auth_tracked s \<Longrightarrow> direct_auth_tracked (step s e)"
proof -
  assume inv: "direct_auth_tracked s"
  have em: "direct_auth_tracked (emit x s)" for x
    using inv by (simp add: direct_auth_tracked_def emit_def)
  have cfg: "direct_auth_tracked (emit x (s\<lparr>config := c\<rparr>))" for x c
    using inv by (simp add: direct_auth_tracked_def emit_def)
  show ?thesis
    unfolding step_def using inv em cfg
    by (cases e)
      (simp_all add: direct_auth_tracked_Connect direct_auth_tracked_ConnectInteractive direct_auth_tracked_NewSecrets direct_auth_tracked_Disconnect
        direct_auth_tracked_SetIp4Config direct_auth_tracked_on_openconnect_exit direct_auth_tracked_fire NeedSecrets_def SetConfig_def
        SetIp6Config_def SetFailure_def)
qed

lemma direct_auth_tracked_reachable: "reachable s \<Longrightarrow> direct_auth_tracked s"
proof (induction rule: reachable.induct)
  case (reachable_init helper)
  show ?case by (simp add: direct_auth_tracked_def init_plugin_def)
next
  case (reachable_step s e)
  then show ?case by (simp add: direct_auth_tracked_step)
qed


subsection \<open>Source ids are fresh and distinct\<close>

lemma ids_fresh_on_openconnect_exit: "ids_fresh s \<Longrightarrow> ids_fresh (on_openconnect_exit pid st s)"
  unfolding on_openconnect_exit_def
  by (auto simp: ids_fresh_def prim_defs src_cb_def Let_def distinct_map_filter less_Suc_eq split: option.splits sum.splits auth_outcome.splits prod.splits list.splits) (fastforce+)?

lemma ids_fresh_do_restart: "ids_fresh s \<Longrightarrow> ids_fresh (do_restart env s)"
  unfolding do_restart_def
  by (auto simp: ids_fresh_def prim_defs src_cb_def Let_def distinct_map_filter less_Suc_eq dest!: start_openconnect_Inr split: option.splits sum.splits auth_outcome.splits prod.splits list.splits) (fastforce+)?

lemma ids_fresh_launch_direct_auth:
  "ids_fresh s \<Longrightarrow> ids_fresh (launch_direct_auth ao env s)"
  unfolding launch_direct_auth_def
  by (auto simp: ids_fresh_def prim_defs src_cb_def Let_def distinct_map_filter less_Suc_eq dest!: start_openconnect_Inr split: option.splits sum.splits auth_outcome.splits prod.splits list.splits) (fastforce+)?

lemma ids_fresh_on_secrets_timeout: "ids_fresh s \<Longrightarrow> ids_fresh (on_secrets_timeout s)"
  unfolding on_secrets_timeout_def
  by (auto simp: ids_fresh_def prim_defs src_cb_def Let_def distinct_map_filter less_Suc_eq split: option.splits sum.splits auth_outcome.splits prod.splits list.splits) (fastforce+)?

lemma ids_fresh_do_connect: "ids_fresh s \<Longrightarrow> ids_fresh (snd (do_connect c env s))"
  unfolding do_connect_def
  by (auto simp: ids_fresh_def prim_defs src_cb_def Let_def distinct_map_filter less_Suc_eq dest!: start_openconnect_Inr split: option.splits sum.splits auth_outcome.splits prod.splits list.splits) (fastforce+)?

lemma ids_fresh_Connect: "ids_fresh s \<Longrightarrow> ids_fresh (snd (Connect c env s))"
  using ids_fresh_do_connect [of s c env] unfolding Connect_def
  by (auto simp: ids_fresh_def prim_defs src_cb_def Let_def distinct_map_filter less_Suc_eq split: option.splits sum.splits auth_outcome.splits prod.splits list.splits) (fastforce+)?

lemma ids_fresh_ConnectInteractive: "ids_fresh s \<Longrightarrow> ids_fresh (snd (ConnectInteractive c env s))"
  using ids_fresh_do_connect [of "s\<lparr>pending_connection := Some c\<rparr>" c env] unfolding ConnectInteractive_def
  by (auto simp: ids_fresh_def prim_defs src_cb_def Let_def distinct_map_filter less_Suc_eq split: option.splits sum.splits auth_outcome.splits prod.splits list.splits) (fastforce+)?

lemma ids_fresh_Disconnect: "ids_fresh s \<Longrightarrow> ids_fresh (Disconnect s)"
  unfolding Disconnect_def
  by (auto simp: ids_fresh_def prim_defs src_cb_def Let_def distinct_map_filter less_Suc_eq split: option.splits sum.splits auth_outcome.splits prod.splits list.splits) (fastforce+)?

lemma ids_fresh_SetIp4Config: "ids_fresh s \<Longrightarrow> ids_fresh (SetIp4Config cfg s)"
  unfolding SetIp4Config_def
  by (auto simp: ids_fresh_def prim_defs src_cb_def Let_def distinct_map_filter less_Suc_eq split: option.splits sum.splits auth_outcome.splits prod.splits list.splits) (fastforce+)?

lemma ids_fresh_NewSecrets: "ids_fresh s \<Longrightarrow> ids_fresh (snd (NewSecrets c env s))"
proof -
  assume inv: "ids_fresh s"
  define s1 where "s1 = cancel_secrets_timeout s"
  have i1: "ids_fresh s1"
    using inv unfolding s1_def by (auto simp: ids_fresh_def prim_defs src_cb_def Let_def distinct_map_filter less_Suc_eq split: option.splits sum.splits auth_outcome.splits prod.splits list.splits) (fastforce+)?
  have upd: "ids_fresh (x\<lparr>pending_connection := pc\<rparr>) = ids_fresh x" for x pc
    by (simp add: ids_fresh_def)
  have dcr: "ids_fresh x'" if "do_connect c' env' x = (r, x')" "ids_fresh x" for c' env' x r x'
    using ids_fresh_do_connect [of x c' env'] that by simp
  have sda: "ids_fresh (schedule_direct_auth 0
      (s1\<lparr>gateway := Some (ensure_https g), reconnection_pending := True,
         reconnection_retry_count := 0\<rparr>))" if "g \<noteq> []" for g
    using i1 that by (auto simp: ids_fresh_def prim_defs src_cb_def Let_def distinct_map_filter less_Suc_eq split: option.splits sum.splits auth_outcome.splits prod.splits list.splits) (fastforce+)?
  have fail: "ids_fresh (emit a (emit b s1))" for a b
    using i1 by (auto simp: ids_fresh_def prim_defs src_cb_def Let_def distinct_map_filter less_Suc_eq split: option.splits sum.splits auth_outcome.splits prod.splits list.splits) (fastforce+)?
  show ?thesis
    unfolding NewSecrets_def s1_def [symmetric] Let_def
    using i1 by (auto simp: upd sda fail ids_fresh_do_connect split: option.splits sum.splits auth_outcome.splits prod.splits list.splits intro: dcr)
qed

lemma ids_fresh_fire: "ids_fresh s \<Longrightarrow> ids_fresh (fire tid ao env s)"
proof (cases "find (\<lambda>src. fst src = tid) (sources s)")
  case None
  then show "ids_fresh s \<Longrightarrow> ?thesis" by (simp add: fire_def)
next
  case (Some src)
  assume inv: "ids_fresh s"
  have mem: "src \<in> set (sources s)" and idt: "fst src = tid"
    using Some by (auto simp: find_Some_iff)
  have rem: "ids_fresh (source_remove tid s)"
    using inv by (auto simp: ids_fresh_def prim_defs src_cb_def Let_def distinct_map_filter less_Suc_eq)
  show ?thesis
    using Some rem 
    by (cases "src_cb src")
      (simp_all add: fire_def run_callback_def ids_fresh_do_restart ids_fresh_launch_direct_auth
        ids_fresh_on_secrets_timeout)
qed

lemma ids_fresh_step: "ids_fresh s \<Longrightarrow> ids_fresh (step s e)"
proof -
  assume inv: "ids_fresh s"
  have em: "ids_fresh (emit x s)" for x
    using inv by (simp add: ids_fresh_def emit_def)
  have cfg: "ids_fresh (emit x (s\<lparr>config := c\<rparr>))" for x c
    using inv by (simp add: ids_fresh_def emit_def)
  show ?thesis
    unfolding step_def using inv em cfg
    by (cases e)
      (simp_all add: ids_fresh_Connect ids_fresh_ConnectInteractive ids_fresh_NewSecrets ids_fresh_Disconnect
        ids_fresh_SetIp4Config ids_fresh_on_openconnect_exit ids_fresh_fire NeedSecrets_def SetConfig_def
        SetIp6Config_def SetFailure_def)
qed

lemma ids_fresh_reachable: "reachable s \<Longrightarrow> ids_fresh s"
proof (induction rule: reachable.induct)
  case (reachable_init helper)
  show ?case by (simp add: ids_fresh_def init_plugin_def)
next
  case (reachable_step s e)
  then show ?case by (simp add: ids_fresh_step)
qed


subsection \<open>A running tunnel has a gateway\<close>















subsection \<open>A running tunnel has a cookie\<close>














section \<open>Facts about pending sources\<close>

lemma pending_filter_none:
  "\<forall>x \<in> set xs. src_cb x \<noteq> cb \<Longrightarrow> filter (\<lambda>src. src_cb src = cb) xs = []"
  by (induction xs) auto

section \<open>The secrets timeout\<close>

text \<open>
  Claim C9: in every reachable state the secrets-wait timer is not pending. No method calls
  \<^verbatim>\<open>_schedule_secrets_timeout\<close>, so \<^verbatim>\<open>_secrets_timeout_id\<close> stays \<^verbatim>\<open>None\<close>, GLib
  holds no source for \<^verbatim>\<open>_on_secrets_timeout\<close>, and whatever source is due, the callback
  the main loop runs is never that one.
\<close>

theorem secrets_timeout_never_pending:
  assumes "reachable s"
  shows "secrets_timeout_id s = None \<and> pending On_secrets_timeout s = [] \<and>
         due_callback tid s \<noteq> Some On_secrets_timeout"
proof -
  have idle: "secrets_timer_idle s"
    using assms by (rule secrets_timer_idle_reachable)
  then have none: "\<forall>x \<in> set (sources s). src_cb x \<noteq> On_secrets_timeout"
    by (simp add: secrets_timer_idle_def)
  have "due_callback tid s \<noteq> Some On_secrets_timeout"
  proof
    assume "due_callback tid s = Some On_secrets_timeout"
    then obtain src where "find (\<lambda>src. fst src = tid) (sources s) = Some src"
      and "src_cb src = On_secrets_timeout"
      by (auto simp: due_callback_def)
    then have "src \<in> set (sources s)" by (auto simp: find_Some_iff)
    with none \<open>src_cb src = On_secrets_timeout\<close> show False by blast
  qed
  with idle none show ?thesis
    by (simp add: secrets_timer_idle_def pending_def pending_filter_none)
qed

theorem secrets_timeout_never_pending_witness:
  "secrets_timeout_id
     (run (init_plugin ''helper'')
        [EvConnectInteractive (conn_gateway_only ''vpn.example.com'') (False, Spawned 100)]) = None \<and>
   pending On_secrets_timeout
     (run (init_plugin ''helper'')
        [EvConnectInteractive (conn_gateway_only ''vpn.example.com'') (False, Spawned 100)]) = [] \<and>
   due_callback 1
     (run (init_plugin ''helper'')
        [EvConnectInteractive (conn_gateway_only ''vpn.example.com'') (False, Spawned 100)])
     \<noteq> Some On_secrets_timeout"
  using secrets_timeout_never_pending [OF reachable_run [OF reachable_init], of "''helper''"
      "[EvConnectInteractive (conn_gateway_only ''vpn.example.com'') (False, Spawned 100)]" 1]
  by simp

section \<open>A reported IPv4 configuration\<close>

lemma SetIp4Config_last_failed_cookie: "last_failed_cookie (SetIp4Config cfg s) = None"
  by (simp add: SetIp4Config_def Let_def prim_defs split: option.splits)

lemma SetIp4Config_spawned: "spawned (SetIp4Config cfg s) = spawned s"
  by (simp add: SetIp4Config_def Let_def prim_defs split: option.splits)

lemma SetIp4Config_helper_script: "helper_script (SetIp4Config cfg s) = helper_script s"
  by (simp add: SetIp4Config_def Let_def prim_defs split: option.splits)

lemma do_connect_fresh:
  assumes "last_failed_cookie t = None"
    and "dget (vpn_data conn) ''gateway'' [] = g" and "g \<noteq> []"
    and "dget (vpn_secrets conn) ''cookie'' [] = c" and "c \<noteq> []"
  shows "fst (do_connect conn (dtls, Spawned pid) t) = None \<and>
         spawned (snd (do_connect conn (dtls, Spawned pid) t)) =
           (pid, openconnect_cmd dtls (helper_script t) c (ensure_https g)) # spawned t"
  using assms
  by (simp add: do_connect_def Let_def truthy_def start_openconnect_def emit_def)

text \<open>
  Claim C10: \<^verbatim>\<open>SetIp4Config\<close> also sets \<^verbatim>\<open>_last_failed_cookie\<close> to \<^verbatim>\<open>None\<close>. A
  connect request that comes next with a gateway and any cookie, also the one rejected
  before, is therefore not refused: \<^verbatim>\<open>Connect\<close> and \<^verbatim>\<open>ConnectInteractive\<close> start
  the tunnel with that cookie.
\<close>

theorem SetIp4Config_forgets_rejected_cookie:
  assumes "dget (vpn_data conn) ''gateway'' [] = g" and "g \<noteq> []"
    and "dget (vpn_secrets conn) ''cookie'' [] = c" and "c \<noteq> []"
  shows "last_failed_cookie (SetIp4Config cfg s) = None \<and>
         fst (Connect conn (dtls, Spawned pid) (SetIp4Config cfg s)) = None \<and>
         spawned (snd (Connect conn (dtls, Spawned pid) (SetIp4Config cfg s))) =
           (pid, openconnect_cmd dtls (helper_script s) c (ensure_https g)) # spawned s \<and>
         fst (ConnectInteractive conn (dtls, Spawned pid) (SetIp4Config cfg s)) = None \<and>
         spawned (snd (ConnectInteractive conn (dtls, Spawned pid) (SetIp4Config cfg s))) =
           (pid, openconnect_cmd dtls (helper_script s) c (ensure_https g)) # spawned s"
proof -
  let ?t = "SetIp4Config cfg s"
  have l: "last_failed_cookie ?t = None" by (rule SetIp4Config_last_failed_cookie)
  have c1: "Connect conn (dtls, Spawned pid) ?t = do_connect conn (dtls, Spawned pid) ?t"
    using assms by (simp add: Connect_def)
  have c2: "ConnectInteractive conn (dtls, Spawned pid) ?t =
      do_connect conn (dtls, Spawned pid) (?t\<lparr>pending_connection := Some conn\<rparr>)"
    using assms l by (simp add: ConnectInteractive_def Let_def truthy_def)
  have d1: "fst (do_connect conn (dtls, Spawned pid) ?t) = None \<and>
         spawned (snd (do_connect conn (dtls, Spawned pid) ?t)) =
           (pid, openconnect_cmd dtls (helper_script ?t) c (ensure_https g)) # spawned ?t"
    using l assms by (rule do_connect_fresh)
  have d2: "fst (do_connect conn (dtls, Spawned pid) (?t\<lparr>pending_connection := Some conn\<rparr>)) = None \<and>
         spawned (snd (do_connect conn (dtls, Spawned pid) (?t\<lparr>pending_connection := Some conn\<rparr>))) =
           (pid, openconnect_cmd dtls (helper_script (?t\<lparr>pending_connection := Some conn\<rparr>)) c (ensure_https g))
             # spawned (?t\<lparr>pending_connection := Some conn\<rparr>)"
    using assms by (intro do_connect_fresh) (simp_all add: l)
  show ?thesis
    using l d1 d2 by (simp add: c1 c2 SetIp4Config_spawned SetIp4Config_helper_script)
qed


theorem SetIp4Config_forgets_rejected_cookie_witness:
  "last_failed_cookie
     (SetIp4Config []
        (run (init_plugin ''helper'')
           [EvConnect (conn_with ''vpn.example.com'' ''abc123'') (False, Spawned 100),
            EvChildExit 100 (Exited 2)])) = None \<and>
   spawned (snd (Connect (conn_with ''vpn.example.com'' ''abc123'') (False, Spawned 101)
     (SetIp4Config []
        (run (init_plugin ''helper'')
           [EvConnect (conn_with ''vpn.example.com'' ''abc123'') (False, Spawned 100),
            EvChildExit 100 (Exited 2)])))) =
     [(101, openconnect_cmd False ''helper'' ''abc123'' ''https://vpn.example.com''),
      (100, openconnect_cmd False ''helper'' ''abc123'' ''https://vpn.example.com'')]"
  using SetIp4Config_forgets_rejected_cookie
    [of "conn_with ''vpn.example.com'' ''abc123''" "''vpn.example.com''" "''abc123''" "[]"
        "run (init_plugin ''helper'')
           [EvConnect (conn_with ''vpn.example.com'' ''abc123'') (False, Spawned 100),
            EvChildExit 100 (Exited 2)]" False 101]
  by code_simp

section \<open>The direct-auth timeout that is due\<close>

lemma due_callback_mem:
  "due_callback tid s = Some cb \<Longrightarrow> \<exists>src \<in> set (sources s). fst src = tid \<and> src_cb src = cb"
  by (auto simp: due_callback_def find_Some_iff)

lemma direct_auth_source_unique:
  assumes "direct_auth_tracked s" and "due_callback tid s = Some Launch_direct_auth"
  shows "pending Launch_direct_auth (source_remove tid s) = []"
proof -
  from assms(2) obtain src where src: "src \<in> set (sources s)" "fst src = tid"
      "src_cb src = Launch_direct_auth"
    by (blast dest: due_callback_mem)
  with assms(1) have tr: "direct_auth_timeout_id s = Some tid"
    by (auto simp: direct_auth_tracked_def)
  have "\<forall>x \<in> set (filter (\<lambda>src. fst src \<noteq> tid) (sources s)). src_cb x \<noteq> Launch_direct_auth"
  proof
    fix x
    assume "x \<in> set (filter (\<lambda>src. fst src \<noteq> tid) (sources s))"
    then have xm: "x \<in> set (sources s)" and xi: "fst x \<noteq> tid" by auto
    show "src_cb x \<noteq> Launch_direct_auth"
    proof
      assume "src_cb x = Launch_direct_auth"
      with assms(1) xm have "direct_auth_timeout_id s = Some (fst x)"
        by (simp add: direct_auth_tracked_def)
      with tr xi show False by simp
    qed
  qed
  then have "filter (\<lambda>src. src_cb src = Launch_direct_auth)
      (filter (\<lambda>src. fst src \<noteq> tid) (sources s)) = []"
    by (rule pending_filter_none)
  then show ?thesis
    by (simp add: pending_def source_remove_def)
qed

section \<open>The sample runs are reachable\<close>

lemma reachable_connected_once: "reachable connected_once"
  unfolding connected_once_def by (intro reachable_run reachable_init)

lemma reachable_awaiting_auth: "reachable awaiting_auth"
  unfolding awaiting_auth_def by (intro reachable_run reachable_init)

lemma reachable_rejected_thrice: "reachable rejected_thrice"
  unfolding rejected_thrice_def by (intro reachable_run reachable_init)

section \<open>Exit of the tunnel process\<close>









section \<open>Disconnect\<close>

lemma reachable_gave_up: "reachable gave_up"
  unfolding gave_up_def by (intro reachable_run reachable_rejected_thrice)

lemma reachable_restart_pending: "reachable restart_pending"
  unfolding restart_pending_def by (intro reachable_run reachable_connected_once)

lemma pending_cancel_direct_auth_timer:
  assumes "direct_auth_tracked s"
  shows "pending Launch_direct_auth (cancel_direct_auth_timer s) = []"
proof (cases "direct_auth_timeout_id s")
  case None
  with assms have "\<forall>x \<in> set (sources s). src_cb x \<noteq> Launch_direct_auth"
    by (auto simp: direct_auth_tracked_def)
  then have "filter (\<lambda>src. src_cb src = Launch_direct_auth) (sources s) = []"
    by (rule pending_filter_none)
  with None show ?thesis
    by (simp add: pending_def cancel_direct_auth_timer_def)
next
  case (Some t)
  have "\<forall>x \<in> set (filter (\<lambda>src. fst src \<noteq> t) (sources s)). src_cb x \<noteq> Launch_direct_auth"
    using assms Some by (auto simp: direct_auth_tracked_def)
  then have "filter (\<lambda>src. src_cb src = Launch_direct_auth)
      (filter (\<lambda>src. fst src \<noteq> t) (sources s)) = []"
    by (rule pending_filter_none)
  with Some show ?thesis
    by (simp add: pending_def cancel_direct_auth_timer_def source_remove_def)
qed

text \<open>
  Claim C4 says that \<^verbatim>\<open>Disconnect\<close>, from every reachable state, leaves the state
  \<^verbatim>\<open>Stopped\<close> and no pending timer. It fails as stated: while reconnection is pending,
  \<^verbatim>\<open>Disconnect\<close> only sets the flag and announces \<^verbatim>\<open>Stopped\<close>, so the direct-auth
  timeout of a \<^verbatim>\<open>Connect\<close> without cookie stays pending and the loop keeps running;
  and in the other branch the restart timeout is not removed either.
\<close>

theorem Disconnect_leaves_timers_counterexample:
  "external_state (emitted (Disconnect awaiting_auth)) = Some Stopped \<and>
   sources (Disconnect awaiting_auth) = [(1, 0, Launch_direct_auth)] \<and>
   loop_quit (Disconnect awaiting_auth) = False \<and>
   sources (Disconnect restart_pending) = [(2, 2000, Do_restart)]"
  by code_simp

text \<open>
  Claim C4, amended: from every reachable state \<^verbatim>\<open>Disconnect\<close> announces
  \<^verbatim>\<open>Stopped\<close> and sets the disconnect-requested flag, after which \<^verbatim>\<open>_do_restart\<close>
  starts nothing. When reconnection is not pending, no direct-auth and no secrets timeout
  is left, both ids are cleared, and the loop is stopped, so that no further event changes
  the state. When reconnection is pending, the timers, their ids and the loop are left as
  they were.
\<close>

theorem Disconnect_stops:
  assumes "reachable s"
  shows "external_state (emitted (Disconnect s)) = Some Stopped \<and>
    disconnect_requested (Disconnect s) \<and>
    spawned (do_restart env (Disconnect s)) = spawned s \<and>
    (\<not> reconnection_pending s \<longrightarrow>
       pending Launch_direct_auth (Disconnect s) = [] \<and>
       pending On_secrets_timeout (Disconnect s) = [] \<and>
       direct_auth_timeout_id (Disconnect s) = None \<and>
       secrets_timeout_id (Disconnect s) = None \<and>
       loop_quit (Disconnect s) \<and>
       step (Disconnect s) e = Disconnect s) \<and>
    (reconnection_pending s \<longrightarrow>
       sources (Disconnect s) = sources s \<and>
       direct_auth_timeout_id (Disconnect s) = direct_auth_timeout_id s \<and>
       restart_timeout_id (Disconnect s) = restart_timeout_id s \<and>
       reconnection_pending (Disconnect s) \<and>
       loop_quit (Disconnect s) = loop_quit s)"
proof -
  have idle: "secrets_timeout_id s = None"
      "\<forall>x \<in> set (sources s). src_cb x \<noteq> On_secrets_timeout"
    using secrets_timer_idle_reachable [OF assms] by (simp_all add: secrets_timer_idle_def)
  have tr: "direct_auth_tracked s"
    using assms by (rule direct_auth_tracked_reachable)
  let ?s1 = "s\<lparr>disconnect_requested := True, cookie := None, gateway := None,
                last_failed_cookie := None, pending_connection := None\<rparr>"
  let ?s2 = "cancel_direct_auth_timer ?s1"
  have tr1: "direct_auth_tracked ?s1"
    using tr by (simp add: direct_auth_tracked_def)
  have p2: "pending Launch_direct_auth ?s2 = []"
    using tr1 by (rule pending_cancel_direct_auth_timer)
  have s2: "secrets_timeout_id ?s2 = None" "direct_auth_timeout_id ?s2 = None"
      "emitted ?s2 = emitted s" "disconnect_requested ?s2" "spawned ?s2 = spawned s"
    using idle(1) by (simp_all add: cancel_direct_auth_timer_def source_remove_def split: option.splits)
  have sec2: "pending On_secrets_timeout ?s2 = []"
  proof -
    have "\<forall>x \<in> set (sources ?s2). src_cb x \<noteq> On_secrets_timeout"
      using idle(2) by (auto simp: cancel_direct_auth_timer_def source_remove_def split: option.splits)
    then show ?thesis unfolding pending_def by (rule pending_filter_none)
  qed
  have quit: "\<not> reconnection_pending s \<Longrightarrow>
      Disconnect s = (emit (StateChanged Stopped)
        (if proc ?s2 \<noteq> None then ?s2\<lparr>proc := None\<rparr> else ?s2))\<lparr>loop_quit := True\<rparr>"
    using s2(1) by (simp add: Disconnect_def Let_def cancel_secrets_timeout_def)
  have keep: "reconnection_pending s \<Longrightarrow>
      Disconnect s = emit (StateChanged Stopped) (s\<lparr>disconnect_requested := True\<rparr>)"
    by (simp add: Disconnect_def)
  show ?thesis
  proof (cases "reconnection_pending s")
    case True
    show ?thesis
      using True by (simp add: keep [OF True] emit_def do_restart_def Let_def)
  next
    case False
    show ?thesis
      using False p2 sec2 s2
      by (simp add: quit [OF False] emit_def do_restart_def Let_def pending_def step_def)
  qed
qed

theorem Disconnect_stops_witness:
  "external_state (emitted (Disconnect connected_once)) = Some Stopped \<and>
   sources (Disconnect connected_once) = [] \<and>
   loop_quit (Disconnect connected_once) \<and>
   step (Disconnect connected_once) (EvTimeout 2 TimeoutExpired (False, Spawned 101)) =
     Disconnect connected_once \<and>
   external_state (emitted (Disconnect awaiting_auth)) = Some Stopped \<and>
   disconnect_requested (Disconnect awaiting_auth)"
proof -
  have a: "\<not> reconnection_pending connected_once" "sources connected_once = []"
    by code_simp+
  have b: "reconnection_pending awaiting_auth"
    by code_simp
  have c: "sources (Disconnect connected_once) = []"
    by code_simp
  show ?thesis
    using Disconnect_stops [OF reachable_connected_once,
        of "(False, Spawned 101)" "EvTimeout 2 TimeoutExpired (False, Spawned 101)"]
      Disconnect_stops [OF reachable_awaiting_auth,
        of "(False, Spawned 101)" "EvTimeout 2 TimeoutExpired (False, Spawned 101)"]
    by (simp add: a b c)
qed

section \<open>Failure of the browser agent\<close>

lemma reachable_nine_failures: "reachable nine_failures"
  unfolding nine_failures_def by (intro reachable_run reachable_awaiting_auth)

lemma reachable_ten_failures: "reachable ten_failures"
  unfolding ten_failures_def by (intro reachable_run reachable_nine_failures)

lemma reachable_credentials_lost: "reachable credentials_lost"
  unfolding credentials_lost_def by (intro reachable_run reachable_restart_pending)

lemma failure_reason_failed: "failure_reason ao = Some r \<Longrightarrow> auth_failed ao"
  by (cases ao) (auto split: if_splits)

text \<open>
  What \<^verbatim>\<open>_launch_direct_auth\<close> does while reconnection is pending, by the value the
  counter takes: above 10 the agent is not run at all; up to 10 a failure without reason
  schedules the retry itself, a failure with a reason goes through
  \<^verbatim>\<open>_schedule_auth_retry\<close>, which stops at 10.
\<close>

lemma launch_direct_auth_exhausted:
  assumes "reconnection_pending x" and "reconnection_retry_count x + 1 > 10"
  shows "launch_direct_auth ao env x =
     emit (Failure ''VPN reconnection failed - please reconnect manually'')
       (emit (StateChanged Stopped)
          (x\<lparr>direct_auth_timeout_id := None,
             reconnection_retry_count := reconnection_retry_count x + 1,
             reconnection_pending := False\<rparr>))"
  using assms by (simp add: launch_direct_auth_def Let_def max_reconnection_retries_def)

lemma launch_direct_auth_retries_itself:
  assumes "reconnection_pending x" and "reconnection_retry_count x + 1 \<le> 10"
    and "auth_failed ao" and "failure_reason ao = None"
  shows "launch_direct_auth ao env x =
     schedule_direct_auth 3000
       (x\<lparr>direct_auth_timeout_id := None,
          reconnection_retry_count := reconnection_retry_count x + 1\<rparr>)"
  using assms
  by (cases ao)
    (auto simp: launch_direct_auth_def Let_def max_reconnection_retries_def
      reconnection_retry_interval_def split: prod.splits if_splits)

lemma launch_direct_auth_with_reason:
  assumes "reconnection_pending x" and "reconnection_retry_count x + 1 \<le> 10"
    and "failure_reason ao = Some r"
  shows "launch_direct_auth ao env x =
     schedule_auth_retry r
       (x\<lparr>direct_auth_timeout_id := None,
          reconnection_retry_count := reconnection_retry_count x + 1\<rparr>)"
  using assms
  by (cases ao)
    (auto simp: launch_direct_auth_def Let_def max_reconnection_retries_def
      split: prod.splits if_splits)

lemma retry_scheduled_after:
  assumes "pending Launch_direct_auth x = []" and "reconnection_pending x"
    and "next_source_id x = next_source_id s" and "emitted x = emitted s"
  shows "retry_scheduled s
     (schedule_direct_auth 3000
        (x\<lparr>direct_auth_timeout_id := None, reconnection_retry_count := n\<rparr>))"
  using assms
  by (simp add: retry_scheduled_def schedule_direct_auth_def timeout_add_def pending_def
      src_cb_def Let_def)

lemma stopped_with_after:
  assumes "pending Launch_direct_auth x = []"
    and "emitted x = emitted s" and "spawned x = spawned s"
  shows "stopped_with msg s
     (emit (Failure msg)
        (emit (StateChanged Stopped)
           (x\<lparr>direct_auth_timeout_id := None, reconnection_retry_count := n,
              reconnection_pending := False\<rparr>)))"
  using assms by (simp add: stopped_with_def emit_def pending_def)

text \<open>
  Claim C8: when the direct-auth timeout is due while reconnection is pending, the attempt
  counter goes up by one before the browser agent is tried. If the agent fails or times out
  and the counter is below 10, exactly one retry is pending afterwards, with a delay of
  3000 ms, and nothing is announced. At 10 the two kinds of failure part: without a
  graphical session, or with a non-zero return code, the retry is scheduled once more; a
  timeout, an exception or an output without cookie announces \<^verbatim>\<open>Stopped\<close> and the
  failure ``after 10 attempts''. Above 10 the agent is not tried: whatever it would
  answer, the plugin announces \<^verbatim>\<open>Stopped\<close> and a failure, clears the pending flag and
  schedules nothing.
\<close>

theorem auth_failure_retry_or_stop:
  assumes "reachable s" and "due_callback tid s = Some Launch_direct_auth"
    and "reconnection_pending s"
  shows "(auth_failed ao \<longrightarrow>
       reconnection_retry_count (fire tid ao env s) = reconnection_retry_count s + 1) \<and>
    (auth_failed ao \<and> reconnection_retry_count s + 1 < 10 \<longrightarrow>
       retry_scheduled s (fire tid ao env s)) \<and>
    (auth_failed ao \<and> reconnection_retry_count s + 1 = 10 \<and> failure_reason ao = None \<longrightarrow>
       retry_scheduled s (fire tid ao env s)) \<and>
    (reconnection_retry_count s + 1 = 10 \<and> failure_reason ao = Some r \<longrightarrow>
       stopped_with (''VPN reconnection failed after 10 attempts: '' @ r) s (fire tid ao env s)) \<and>
    (reconnection_retry_count s + 1 > 10 \<longrightarrow>
       reconnection_retry_count (fire tid ao env s) = reconnection_retry_count s + 1 \<and>
       stopped_with ''VPN reconnection failed - please reconnect manually'' s (fire tid ao env s))"
proof -
  let ?x = "source_remove tid s"
  let ?n = "reconnection_retry_count s + 1"
  let ?x1 = "?x\<lparr>direct_auth_timeout_id := None, reconnection_retry_count := ?n\<rparr>"
  have f: "fire tid ao env s = launch_direct_auth ao env ?x"
    using assms(2) by (simp add: fire_due_callback run_callback_def)
  have none: "pending Launch_direct_auth ?x = []"
    using direct_auth_tracked_reachable [OF assms(1)] assms(2) by (rule direct_auth_source_unique)
  have x: "reconnection_pending ?x" "reconnection_retry_count ?x = reconnection_retry_count s"
      "next_source_id ?x = next_source_id s" "emitted ?x = emitted s" "spawned ?x = spawned s"
    using assms(3) by (simp_all add: source_remove_def)
  have retry: "retry_scheduled s (schedule_direct_auth 3000 ?x1)"
    using none x(1,3,4) by (rule retry_scheduled_after)
  have cnt_retry: "reconnection_retry_count (schedule_direct_auth 3000 ?x1) = ?n"
    by (simp add: schedule_direct_auth_def timeout_add_def source_remove_def Let_def)
  have stop: "stopped_with msg s
      (emit (Failure msg) (emit (StateChanged Stopped) (?x1\<lparr>reconnection_pending := False\<rparr>)))" for msg
    using stopped_with_after [OF none x(4,5), of msg ?n] by simp
  have cnt_stop: "reconnection_retry_count
      (emit (Failure msg) (emit (StateChanged Stopped) (?x1\<lparr>reconnection_pending := False\<rparr>))) = ?n" for msg
    by (simp add: emit_def)
  have high: "?n > 10 \<Longrightarrow> fire tid ao env s =
      emit (Failure ''VPN reconnection failed - please reconnect manually'')
        (emit (StateChanged Stopped) (?x1\<lparr>reconnection_pending := False\<rparr>))"
    using launch_direct_auth_exhausted [of ?x ao env] x(1,2) by (simp add: f)
  have self: "?n \<le> 10 \<Longrightarrow> auth_failed ao \<Longrightarrow> failure_reason ao = None \<Longrightarrow>
      fire tid ao env s = schedule_direct_auth 3000 ?x1"
    using launch_direct_auth_retries_itself [of ?x ao env] x(1,2) by (simp add: f)
  have reason: "?n \<le> 10 \<Longrightarrow> failure_reason ao = Some q \<Longrightarrow>
      fire tid ao env s = schedule_auth_retry q ?x1" for q
    using launch_direct_auth_with_reason [of ?x ao q env] x(1,2) by (simp add: f)
  have reason_low: "?n < 10 \<Longrightarrow> failure_reason ao = Some q \<Longrightarrow>
      fire tid ao env s = schedule_direct_auth 3000 ?x1" for q
    using reason [of q]
    by (simp add: schedule_auth_retry_def max_reconnection_retries_def
        reconnection_retry_interval_def)
  have reason_ten: "?n = 10 \<Longrightarrow> failure_reason ao = Some q \<Longrightarrow>
      fire tid ao env s =
        emit (Failure (''VPN reconnection failed after 10 attempts: '' @ q))
          (emit (StateChanged Stopped) (?x1\<lparr>reconnection_pending := False\<rparr>))" for q
    using reason [of q]
    by (simp add: schedule_auth_retry_def max_reconnection_retries_def)
  have c1: "auth_failed ao \<Longrightarrow> reconnection_retry_count (fire tid ao env s) = ?n"
  proof -
    assume af: "auth_failed ao"
    consider "?n > 10" | "?n < 10" | "?n = 10" by linarith
    then show ?thesis
    proof cases
      case 1
      then show ?thesis by (simp only: high cnt_stop)
    next
      case 2
      show ?thesis
      proof (cases "failure_reason ao")
        case None
        with af 2 have "fire tid ao env s = schedule_direct_auth 3000 ?x1"
          by (intro self) simp_all
        then show ?thesis by (simp only: cnt_retry)
      next
        case (Some q)
        from reason_low [OF 2 Some] show ?thesis by (simp only: cnt_retry)
      qed
    next
      case 3
      show ?thesis
      proof (cases "failure_reason ao")
        case None
        with af 3 have "fire tid ao env s = schedule_direct_auth 3000 ?x1"
          by (intro self) simp_all
        then show ?thesis by (simp only: cnt_retry)
      next
        case (Some q)
        from reason_ten [OF 3 Some] show ?thesis by (simp only: cnt_stop)
      qed
    qed
  qed
  have c2: "auth_failed ao \<Longrightarrow> ?n < 10 \<Longrightarrow> retry_scheduled s (fire tid ao env s)"
  proof -
    assume af: "auth_failed ao" and lt: "?n < 10"
    show ?thesis
    proof (cases "failure_reason ao")
      case None
      with af lt have "fire tid ao env s = schedule_direct_auth 3000 ?x1"
        by (intro self) simp_all
      then show ?thesis using retry by (simp only:)
    next
      case (Some q)
      from reason_low [OF lt Some] show ?thesis using retry by (simp only:)
    qed
  qed
  have c3: "auth_failed ao \<Longrightarrow> ?n = 10 \<Longrightarrow> failure_reason ao = None \<Longrightarrow>
      retry_scheduled s (fire tid ao env s)"
  proof -
    assume "auth_failed ao" "?n = 10" "failure_reason ao = None"
    then have "fire tid ao env s = schedule_direct_auth 3000 ?x1"
      by (intro self) simp_all
    then show ?thesis using retry by (simp only:)
  qed
  have c4: "?n = 10 \<Longrightarrow> failure_reason ao = Some r \<Longrightarrow>
      stopped_with (''VPN reconnection failed after 10 attempts: '' @ r) s (fire tid ao env s)"
    using stop by (simp only: reason_ten)
  have c5: "?n > 10 \<Longrightarrow> reconnection_retry_count (fire tid ao env s) = ?n \<and>
      stopped_with ''VPN reconnection failed - please reconnect manually'' s (fire tid ao env s)"
    using stop cnt_stop by (simp only: high)
  show ?thesis
    using c1 c2 c3 c4 c5 by blast
qed

theorem auth_failure_retry_or_stop_witness:
  "retry_scheduled awaiting_auth (fire 1 TimeoutExpired (False, Spawned 100) awaiting_auth) \<and>
   reconnection_retry_count (fire 1 TimeoutExpired (False, Spawned 100) awaiting_auth) = 0 + 1 \<and>
   retry_scheduled nine_failures (fire 10 NoGraphicalSession (False, Spawned 100) nine_failures) \<and>
   stopped_with ''VPN reconnection failed after 10 attempts: Auth-dialog timed out''
     nine_failures (fire 10 TimeoutExpired (False, Spawned 100) nine_failures) \<and>
   stopped_with ''VPN reconnection failed - please reconnect manually''
     ten_failures (fire 11 (DialogExited 0 [''cookie'', ''abc123'']) (False, Spawned 100) ten_failures)"
proof -
  have a: "due_callback 1 awaiting_auth = Some Launch_direct_auth"
      "reconnection_pending awaiting_auth" "reconnection_retry_count awaiting_auth = 0"
    by code_simp+
  have b: "due_callback 10 nine_failures = Some Launch_direct_auth"
      "reconnection_pending nine_failures" "reconnection_retry_count nine_failures = 9"
    by code_simp+
  have c: "due_callback 11 ten_failures = Some Launch_direct_auth"
      "reconnection_pending ten_failures" "reconnection_retry_count ten_failures = 10"
    by code_simp+
  show ?thesis
    using auth_failure_retry_or_stop [OF reachable_awaiting_auth a(1,2),
        of TimeoutExpired "(False, Spawned 100)" "[]"]
      auth_failure_retry_or_stop [OF reachable_nine_failures b(1,2),
        of NoGraphicalSession "(False, Spawned 100)" "[]"]
      auth_failure_retry_or_stop [OF reachable_nine_failures b(1,2),
        of TimeoutExpired "(False, Spawned 100)" "''Auth-dialog timed out''"]
      auth_failure_retry_or_stop [OF reachable_ten_failures c(1,2),
        of "DialogExited 0 [''cookie'', ''abc123'']" "(False, Spawned 100)" "[]"]
    by (simp add: a(3) b(3) c(3))
qed

section \<open>A transient exit and the restart\<close>


text \<open>
  The last branch of \<^verbatim>\<open>_on_openconnect_exit\<close> (``Cannot restart - no cookie or gateway'')
  as the method has it, in any state. By the lemma above no run reaches it: when a tracked
  process exits, both are known.
\<close>

lemma on_openconnect_exit_no_credentials:
  assumes "proc s = Some pid" and "\<not> disconnect_requested s" and "exit_code st \<noteq> 2"
    and "\<not> (truthy (cookie s) \<and> truthy (gateway s))"
  shows "on_openconnect_exit pid st s =
     emit (StateChanged Stopped) (s\<lparr>proc := None, child_watch_id := None\<rparr>)"
  using assms by (auto simp: on_openconnect_exit_def Let_def)





section \<open>A restart timeout that outlives the connection\<close>

text \<open>
  Claim C6 says that every \<^verbatim>\<open>SetIp4Config\<close> cancels any pending restart timeout.
  \<^verbatim>\<open>SetIp4Config\<close> removes the source whose id \<^verbatim>\<open>_restart_timeout_id\<close> holds; a
  restart timeout whose id was overwritten by a later one (claim C5) is not removed. In the
  run below the tunnel exits twice with code 1 while \<^verbatim>\<open>Connect\<close> restarts it each time;
  after the third start and \<^verbatim>\<open>SetIp4Config\<close> the first restart timeout is still
  pending, and when it fires a fourth openconnect is started although the third never
  exited.
\<close>

theorem leaked_restart_survives_SetIp4Config:
  "pending Do_restart
     (run restart_pending
        [EvConnect (conn_with ''vpn.example.com'' ''abc123'') (False, Spawned 101),
         EvChildExit 101 (Exited 1),
         EvConnect (conn_with ''vpn.example.com'' ''abc123'') (False, Spawned 102),
         EvSetIp4Config []])
     = [(2, 2000, Do_restart)] \<and>
   proc
     (run restart_pending
        [EvConnect (conn_with ''vpn.example.com'' ''abc123'') (False, Spawned 101),
         EvChildExit 101 (Exited 1),
         EvConnect (conn_with ''vpn.example.com'' ''abc123'') (False, Spawned 102),
         EvSetIp4Config [],
         EvTimeout 2 TimeoutExpired (False, Spawned 103)])
     = Some 103 \<and>
   map fst (spawned
     (run restart_pending
        [EvConnect (conn_with ''vpn.example.com'' ''abc123'') (False, Spawned 101),
         EvChildExit 101 (Exited 1),
         EvConnect (conn_with ''vpn.example.com'' ''abc123'') (False, Spawned 102),
         EvSetIp4Config [],
         EvTimeout 2 TimeoutExpired (False, Spawned 103)]))
     = [103, 102, 101, 100]"
  by code_simp

text \<open>What \<^verbatim>\<open>SetIp4Config\<close> does in every state: the tracked restart timeout is removed and the counters are reset.\<close>

lemma SetIp4Config_effect:
  "emitted (SetIp4Config cfg s) = StateChanged Started # Ip4Config cfg # emitted s \<and>
   restart_timeout_id (SetIp4Config cfg s) = None \<and>
   direct_auth_timeout_id (SetIp4Config cfg s) = None \<and>
   (0 \<le> auth_failure_count s \<longrightarrow> auth_failure_count (SetIp4Config cfg s) = 0) \<and>
   (0 \<le> reconnection_retry_count s \<longrightarrow> reconnection_retry_count (SetIp4Config cfg s) = 0) \<and>
   (restart_timeout_id s = Some t \<longrightarrow> t \<notin> fst ` set (sources (SetIp4Config cfg s)))"
  by (auto simp: SetIp4Config_def Let_def prim_defs split: option.splits)


text \<open>In a reachable state the counters are not negative, so both are zero afterwards.\<close>

lemma SetIp4Config_resets:
  assumes "reachable s"
  shows "auth_failure_count (SetIp4Config cfg s) = 0 \<and>
    reconnection_retry_count (SetIp4Config cfg s) = 0 \<and>
    restart_timeout_id (SetIp4Config cfg s) = None \<and>
    external_state (emitted (SetIp4Config cfg s)) = Some Started"
  using counters_ok_reachable [OF assms] SetIp4Config_effect [of cfg s]
  by (simp add: counters_ok_def)

section \<open>A rejected cookie offered again\<close>

lemma reachable_rejected_once: "reachable rejected_once"
  unfolding rejected_once_def by (intro reachable_run reachable_connected_once)











section \<open>Disconnect during re-authentication\<close>

text \<open>
  Claim C2: a \<^verbatim>\<open>Disconnect\<close> that arrives while reconnection is pending sets the
  disconnect-requested flag, and every retry timer that fires afterwards sees the flag
  and does not start the tunnel. The code does not do this for the direct-auth timer:
  \<^verbatim>\<open>_launch_direct_auth\<close> tests \<^verbatim>\<open>_reconnection_pending\<close> only. In the run below a
  \<^verbatim>\<open>Connect\<close> without cookie schedules direct authentication, \<^verbatim>\<open>Disconnect\<close>
  follows, then the timer fires and the dialog returns a cookie: the flag is still set and
  the tunnel has been started.
\<close>

theorem direct_auth_ignores_disconnect:
  "(let s = run (init_plugin ''helper'')
        [EvConnect (conn_gateway_only ''vpn.example.com'') (False, Spawned 100),
         EvDisconnect,
         EvTimeout 1 (DialogExited 0 [''cookie'', ''abc123'']) (False, Spawned 100)]
    in disconnect_requested s \<and> proc s = Some 100 \<and>
       spawned s = [(100, openconnect_cmd False ''helper'' ''abc123'' ''https://vpn.example.com'')])"
  by code_simp

section \<open>One pending timer per name\<close>

text \<open>
  For the direct-auth timeout the property holds in every reachable state: at most one is
  pending, since every pending one carries the tracked id and ids are not shared. (No
  secrets timeout is ever pending, see above.)
\<close>

lemma filter_same_id_short:
  "distinct (map fst xs) \<Longrightarrow> \<forall>x \<in> set xs. P x \<longrightarrow> fst x = (t::nat) \<Longrightarrow> length (filter P xs) \<le> 1"
proof (induction xs)
  case Nil
  then show ?case by simp
next
  case (Cons x xs)
  show ?case
  proof (cases "P x")
    case True
    have "filter P xs = []"
    proof (rule ccontr)
      assume "filter P xs \<noteq> []"
      then obtain y where y: "y \<in> set xs" "P y"
        by (auto simp: filter_empty_conv)
      with Cons.prems(2) True have "fst y = fst x" by simp
      with y(1) Cons.prems(1) show False by (auto simp: image_iff)
    qed
    with True show ?thesis by simp
  next
    case False
    with Cons show ?thesis by simp
  qed
qed

lemma direct_auth_at_most_one:
  assumes "reachable s"
  shows "length (pending Launch_direct_auth s) \<le> 1"
proof (cases "direct_auth_timeout_id s")
  case None
  with direct_auth_tracked_reachable [OF assms]
  have "\<forall>x \<in> set (sources s). src_cb x \<noteq> Launch_direct_auth"
    by (auto simp: direct_auth_tracked_def)
  then have "filter (\<lambda>src. src_cb src = Launch_direct_auth) (sources s) = []"
    by (rule pending_filter_none)
  then show ?thesis by (simp add: pending_def)
next
  case (Some t)
  have d: "distinct (map fst (sources s))"
    using ids_fresh_reachable [OF assms] by (simp add: ids_fresh_def)
  have "\<forall>x \<in> set (sources s). src_cb x = Launch_direct_auth \<longrightarrow> fst x = t"
    using direct_auth_tracked_reachable [OF assms] Some by (auto simp: direct_auth_tracked_def)
  with d show ?thesis
    unfolding pending_def by (rule filter_same_id_short)
qed

text \<open>
  Claim C5: scheduling a named timer twice leaves exactly one pending timer of that name,
  because every schedule operation first cancels the pending instance. The restart
  timeout is scheduled in \<^verbatim>\<open>_on_openconnect_exit\<close> without removing the source
  whose id \<^verbatim>\<open>_restart_timeout_id\<close> holds. In the run below the tunnel exits with
  code 1, a second \<^verbatim>\<open>Connect\<close> starts it again before the timeout is due, and it
  exits with code 1 once more: two restart timeouts are pending.
\<close>

theorem restart_timeout_not_replaced:
  "pending Do_restart
     (run (init_plugin ''helper'')
        [EvConnect (conn_with ''vpn.example.com'' ''abc123'') (False, Spawned 100),
         EvChildExit 100 (Exited 1),
         EvConnect (conn_with ''vpn.example.com'' ''abc123'') (False, Spawned 101),
         EvChildExit 101 (Exited 1)])
   = [(2, 2000, Do_restart), (4, 2000, Do_restart)]"
  by code_simp

end
